theory Spec2Isabelle
  imports Main "HOL-Library.Multiset" "HOL-Library.Option_ord"
begin

section \<open>Values carried by a request\<close>

text \<open>
  \<^verbatim>\<open>express.json()\<close> and \<^verbatim>\<open>express.urlencoded({ extended: true })\<close> hand every handler
  a parsed body: an object whose values are null, booleans, numbers, strings, arrays and
  objects. An object is a list of keys with their values, each key once; a key that is
  not in the list is \<^verbatim>\<open>undefined\<close> in the handler. A request without a body has the
  empty object as its body. The numbers of the language are
  double-precision floats: their type is left open here, and what the language does
  with a number comes with the libraries below. Times are milliseconds since the epoch.
\<close>

typedecl number

datatype jsval =
    JNull
  | JBool bool
  | JNum number
  | JStr string
  | JArr "jsval list"
  | JObj "(string \<times> jsval) list"

type_synonym body = "(string \<times> jsval) list"

definition field :: "body \<Rightarrow> string \<Rightarrow> jsval option" where
  "field b k = map_of b k"

fun scalar :: "jsval \<Rightarrow> bool" where
  "scalar (JArr xs) = False"
| "scalar (JObj kvs) = False"
| "scalar v = True"

fun scalar_or_absent :: "jsval option \<Rightarrow> bool" where
  "scalar_or_absent None = True"
| "scalar_or_absent (Some v) = scalar v"

text \<open>
  \<^verbatim>\<open>String.prototype.replace\<close> with a string pattern: the first occurrence of the
  pattern is replaced, wherever it stands.
\<close>

fun replace_first :: "string \<Rightarrow> string \<Rightarrow> string \<Rightarrow> string" where
  "replace_first pat rep [] = (if pat = [] then rep else [])"
| "replace_first pat rep (c # cs) =
     (if take (length pat) (c # cs) = pat then rep @ drop (length pat) (c # cs)
      else c # replace_first pat rep cs)"

fun join :: "string \<Rightarrow> string list \<Rightarrow> string" where
  "join sep [] = []"
| "join sep [x] = x"
| "join sep (x # y # ys) = x @ sep @ join sep (y # ys)"

section \<open>Documents and the store\<close>

text \<open>
  An ObjectId is twelve bytes, read here as a number. An \<^verbatim>\<open>_id\<close> may also be null.
  contactSchema, clientSchema and adminSchema give one record per stored document. The
  three collections are lists in insertion order. An operation on them fails on what it
  is given (a cast, a validation, a unique index) and on nothing else: a lost connection
  is outside the model.
\<close>

type_synonym oid = nat

datatype error = CastError | ValidationError | DuplicateKey | IllegalArguments

record contact =
  contact_id :: oid
  contact_name :: string
  contact_email :: string
  contact_phone :: "string option"
  contact_service :: "string option"
  contact_message :: "string option"
  contact_date :: int
  contact_status :: "string option"

record client =
  client_id :: "oid option"
  client_name :: "string option"
  client_logo :: "string option"
  client_projectName :: "string option"
  client_category :: "string option"
  client_results :: "string option"
  client_testimonial :: "string option"
  client_clientRating :: "number option"
  client_date :: "int option"

record admin =
  admin_id :: oid
  username :: string
  password :: string

record store =
  contacts :: "contact list"
  clients :: "client list"
  admins :: "admin list"

definition empty_store :: store where
  "empty_store = \<lparr>contacts = [], clients = [], admins = []\<rparr>"

text \<open>What an update does to a path: nothing, or set it (to a string or to null).\<close>

datatype change = Keep | Set "string option"

section \<open>The collaborators\<close>

text \<open>
  The libraries the server calls, and the language under it, are parameters.
  \<^item> bcrypt: the digest of a salt and a plaintext, and the check of a plaintext against
    a digest.
  \<^item> jsonwebtoken: signing an id at a given time, and verifying a token at a given time
    (\<open>None\<close> when verification throws, otherwise the \<^verbatim>\<open>id\<close> field of the payload).
  \<^item> The language: whether a number is zero, a number printed as a string,
    \<^verbatim>\<open>Number(v)\<close> of a string or boolean (\<open>None\<close> for NaN), and the time of the Date
    that the ODM's date cast builds from a number, a non-empty string or an array
    (\<open>None\<close> when that is no date).
  \<^item> The ODM and its driver, where their versions differ or their rules are not spelled
    out here: whether any string of twelve bytes is an ObjectId (earlier drivers) or
    only twenty-four hexadecimal digits are (later ones); what the ObjectId cast makes
    of an array or an object (\<open>None\<close> when it throws); which stored usernames, and which
    stored ids, a query filter selects whose value is an array or an object (\<open>None\<close>
    when casting the filter throws); what an update does whose value for \<open>status\<close> is an
    object (\<open>None\<close> when casting the update throws); and whether an undefined key is
    dropped from an update (later versions) or written as null (earlier ones).
\<close>

record lib =
  bcrypt_digest :: "string \<Rightarrow> string \<Rightarrow> string"
  bcrypt_check :: "string \<Rightarrow> string \<Rightarrow> bool"
  jwt_sign :: "int \<Rightarrow> oid \<Rightarrow> string"
  jwt_verify :: "int \<Rightarrow> string \<Rightarrow> jsval option option"
  Number_isZero :: "number \<Rightarrow> bool"
  Number_toString :: "number \<Rightarrow> string"
  js_Number :: "jsval \<Rightarrow> number option"
  js_Date :: "jsval \<Rightarrow> int option"
  ObjectId_12_bytes :: bool
  ObjectId_object :: "jsval \<Rightarrow> oid option"
  filter_username :: "jsval \<Rightarrow> (string \<Rightarrow> bool) option"
  filter__id :: "jsval \<Rightarrow> (oid \<Rightarrow> bool) option"
  castUpdate_object :: "(string \<times> jsval) list \<Rightarrow> change option"
  omitUndefined :: bool

text \<open>
  What one request finds around it: the clock, the salt drawn for a digest, the ObjectId
  generated for a new document (taken to be fresh), and the mail transport, which
  delivers a message (\<open>True\<close>) or throws (\<open>False\<close>).
\<close>

record world =
  now :: int
  salt :: string
  new_id :: oid
  sendMail :: "string \<Rightarrow> bool"

section \<open>The language\<close>

text \<open>The operator \<^verbatim>\<open>!v\<close>: true on undefined, null, false, zero and the empty string.\<close>

fun falsy :: "lib \<Rightarrow> jsval option \<Rightarrow> bool" where
  "falsy L None = True"
| "falsy L (Some JNull) = True"
| "falsy L (Some (JBool b)) = (\<not> b)"
| "falsy L (Some (JNum n)) = Number_isZero L n"
| "falsy L (Some (JStr s)) = (s = [])"
| "falsy L (Some (JArr xs)) = False"
| "falsy L (Some (JObj kvs)) = False"

text \<open>
  The string of a value, as a template literal takes it (\<open>None\<close> when the conversion
  throws): an array is its elements joined by commas, null elements empty; an object is
  \<^verbatim>\<open>[object Object]\<close>, unless a key of its own hides \<^verbatim>\<open>toString\<close>.
\<close>

fun js_String :: "lib \<Rightarrow> jsval \<Rightarrow> string option" where
  "js_String L JNull = Some ''null''"
| "js_String L (JBool b) = Some (if b then ''true'' else ''false'')"
| "js_String L (JNum n) = Some (Number_toString L n)"
| "js_String L (JStr s) = Some s"
| "js_String L (JArr xs) =
     map_option (join '','')
       (those (map (\<lambda>x. if x = JNull then Some [] else js_String L x) xs))"
| "js_String L (JObj kvs) =
     (if ''toString'' \<in> set (map fst kvs) then None else Some ''[object Object]'')"

fun interpolate :: "lib \<Rightarrow> jsval option \<Rightarrow> string option" where
  "interpolate L None = Some ''undefined''"
| "interpolate L (Some v) = js_String L v"

text \<open>\<^verbatim>\<open>bcrypt.hash\<close> and \<^verbatim>\<open>bcrypt.compare\<close> reject an argument that is not a string.\<close>

fun bcrypt_hash :: "lib \<Rightarrow> world \<Rightarrow> jsval option \<Rightarrow> error + string" where
  "bcrypt_hash L w (Some (JStr s)) = Inr (bcrypt_digest L (salt w) s)"
| "bcrypt_hash L w _ = Inl IllegalArguments"

fun bcrypt_compare :: "lib \<Rightarrow> jsval option \<Rightarrow> string \<Rightarrow> error + bool" where
  "bcrypt_compare L (Some (JStr s)) h = Inr (bcrypt_check L s h)"
| "bcrypt_compare L _ h = Inl IllegalArguments"

section \<open>The casts of the schema types\<close>

text \<open>
  A cast leaves null and undefined alone (the result \<open>None\<close>). The string cast prints
  numbers and booleans, takes the \<^verbatim>\<open>_id\<close> of an object that has a non-empty string
  there, and throws on every other object and on every array.
\<close>

fun castString :: "lib \<Rightarrow> jsval option \<Rightarrow> error + string option" where
  "castString L None = Inr None"
| "castString L (Some JNull) = Inr None"
| "castString L (Some (JBool b)) = Inr (Some (if b then ''true'' else ''false''))"
| "castString L (Some (JNum n)) = Inr (Some (Number_toString L n))"
| "castString L (Some (JStr s)) = Inr (Some s)"
| "castString L (Some (JArr xs)) = Inl CastError"
| "castString L (Some (JObj kvs)) =
     (case map_of kvs ''_id'' of
        Some (JStr s) \<Rightarrow> if s = [] then Inl CastError else Inr (Some s)
      | _ \<Rightarrow> Inl CastError)"

text \<open>The values on which the string cast throws.\<close>

fun uncastable :: "jsval option \<Rightarrow> bool" where
  "uncastable (Some (JArr xs)) = True"
| "uncastable (Some (JObj kvs)) =
     (case map_of kvs ''_id'' of Some (JStr s) \<Rightarrow> s = [] | _ \<Rightarrow> True)"
| "uncastable v = False"

text \<open>
  The driver builds an ObjectId from a string of twenty-four hexadecimal digits, in its
  earlier versions also from any string of twelve bytes, and throws on every other
  string.
\<close>

definition hex_val :: "char \<Rightarrow> nat option" where
  "hex_val c =
     (let n = (of_char c :: nat) in
      if 48 \<le> n \<and> n \<le> 57 then Some (n - 48)
      else if 97 \<le> n \<and> n \<le> 102 then Some (n - 87)
      else if 65 \<le> n \<and> n \<le> 70 then Some (n - 55)
      else None)"

definition hex24 :: "string \<Rightarrow> bool" where
  "hex24 s = (length s = 24 \<and> list_all (\<lambda>c. hex_val c \<noteq> None) s)"

definition ObjectId :: "lib \<Rightarrow> string \<Rightarrow> error + oid" where
  "ObjectId L s =
     (if hex24 s then Inr (foldl (\<lambda>a c. a * 16 + the (hex_val c)) 0 s)
      else if length s = 12 \<and> ObjectId_12_bytes L
        then Inr (foldl (\<lambda>a c. a * 256 + of_char c) 0 s)
      else Inl CastError)"

fun castObjectId :: "lib \<Rightarrow> jsval option \<Rightarrow> error + oid option" where
  "castObjectId L None = Inr None"
| "castObjectId L (Some JNull) = Inr None"
| "castObjectId L (Some (JBool b)) = map_sum (\<lambda>e. e) Some (ObjectId L (if b then ''true'' else ''false''))"
| "castObjectId L (Some (JNum n)) = map_sum (\<lambda>e. e) Some (ObjectId L (Number_toString L n))"
| "castObjectId L (Some (JStr s)) = map_sum (\<lambda>e. e) Some (ObjectId L s)"
| "castObjectId L (Some v) =
     (case ObjectId_object L v of None \<Rightarrow> Inl CastError | Some i \<Rightarrow> Inr (Some i))"

text \<open>
  The number cast: the empty string is null, a string or boolean goes through
  \<^verbatim>\<open>Number\<close>, and NaN, an array or an object throws.
\<close>

fun castNumber :: "lib \<Rightarrow> jsval option \<Rightarrow> error + number option" where
  "castNumber L None = Inr None"
| "castNumber L (Some JNull) = Inr None"
| "castNumber L (Some (JNum n)) = Inr (Some n)"
| "castNumber L (Some (JStr s)) =
     (if s = [] then Inr None
      else (case js_Number L (JStr s) of None \<Rightarrow> Inl CastError | Some n \<Rightarrow> Inr (Some n)))"
| "castNumber L (Some (JBool b)) =
     (case js_Number L (JBool b) of None \<Rightarrow> Inl CastError | Some n \<Rightarrow> Inr (Some n))"
| "castNumber L (Some (JArr xs)) = Inl CastError"
| "castNumber L (Some (JObj kvs)) = Inl CastError"

text \<open>
  The date cast: the empty string is null, a boolean or an object throws, and a number,
  a non-empty string or an array is read as a date, or throws when it is none.
\<close>

fun castDate :: "lib \<Rightarrow> jsval option \<Rightarrow> error + int option" where
  "castDate L None = Inr None"
| "castDate L (Some JNull) = Inr None"
| "castDate L (Some (JBool b)) = Inl CastError"
| "castDate L (Some (JObj kvs)) = Inl CastError"
| "castDate L (Some (JStr s)) =
     (if s = [] then Inr None
      else (case js_Date L (JStr s) of None \<Rightarrow> Inl CastError | Some t \<Rightarrow> Inr (Some t)))"
| "castDate L (Some v) =
     (case js_Date L v of None \<Rightarrow> Inl CastError | Some t \<Rightarrow> Inr (Some t))"

section \<open>Responses\<close>

datatype payload =
    Contacts "contact list"
  | ContactOrNull "contact option"
  | Clients "client list"
  | ClientDoc client

datatype json =
    Message bool string
  | Data bool payload
  | Token bool string string

record response =
  status :: nat
  json :: json

definition respond :: "nat \<Rightarrow> json \<Rightarrow> response" where
  "respond c j = \<lparr>status = c, json = j\<rparr>"

section \<open>Queries\<close>

text \<open>
  A query filter is cast to the type of its path. A null or undefined value asks for a
  document without the path, and no stored admin is one: every admin has an id and a
  username. A scalar value selects the documents whose path equals its cast. What an
  array or an object selects is the library's matter.
\<close>

fun id_query :: "lib \<Rightarrow> jsval option \<Rightarrow> error + (oid \<Rightarrow> bool)" where
  "id_query L None = Inr (\<lambda>i. False)"
| "id_query L (Some JNull) = Inr (\<lambda>i. False)"
| "id_query L (Some (JArr xs)) =
     (case filter__id L (JArr xs) of None \<Rightarrow> Inl CastError | Some P \<Rightarrow> Inr P)"
| "id_query L (Some (JObj kvs)) =
     (case filter__id L (JObj kvs) of None \<Rightarrow> Inl CastError | Some P \<Rightarrow> Inr P)"
| "id_query L (Some v) =
     (case castObjectId L (Some v) of
        Inl e \<Rightarrow> Inl e
      | Inr None \<Rightarrow> Inr (\<lambda>i. False)
      | Inr (Some j) \<Rightarrow> Inr (\<lambda>i. i = j))"

fun username_query :: "lib \<Rightarrow> jsval option \<Rightarrow> error + (string \<Rightarrow> bool)" where
  "username_query L None = Inr (\<lambda>u. False)"
| "username_query L (Some JNull) = Inr (\<lambda>u. False)"
| "username_query L (Some (JArr xs)) =
     (case filter_username L (JArr xs) of None \<Rightarrow> Inl CastError | Some P \<Rightarrow> Inr P)"
| "username_query L (Some (JObj kvs)) =
     (case filter_username L (JObj kvs) of None \<Rightarrow> Inl CastError | Some P \<Rightarrow> Inr P)"
| "username_query L (Some v) =
     (case castString L (Some v) of
        Inl e \<Rightarrow> Inl e
      | Inr None \<Rightarrow> Inr (\<lambda>u. False)
      | Inr (Some n) \<Rightarrow> Inr (\<lambda>u. u = n))"

text \<open>\<^verbatim>\<open>Admin.findById(id)\<close> and \<^verbatim>\<open>Admin.findOne({ username })\<close>.\<close>

definition findById_admin :: "lib \<Rightarrow> store \<Rightarrow> jsval option \<Rightarrow> error + admin option" where
  "findById_admin L s v =
     (case id_query L v of
        Inl e \<Rightarrow> Inl e
      | Inr P \<Rightarrow> Inr (find (\<lambda>a. P (admin_id a)) (admins s)))"

definition findOne_admin :: "lib \<Rightarrow> store \<Rightarrow> jsval option \<Rightarrow> error + admin option" where
  "findOne_admin L s v =
     (case username_query L v of
        Inl e \<Rightarrow> Inl e
      | Inr P \<Rightarrow> Inr (find (\<lambda>a. P (username a)) (admins s)))"

section \<open>Auth middleware\<close>

definition please_authenticate :: response where
  "please_authenticate = respond 401 (Message False ''Please authenticate'')"

text \<open>
  The middleware either answers itself (\<open>Inl\<close>) or calls \<^verbatim>\<open>next()\<close> with the admin
  attached to the request (\<open>Inr\<close>). Every throw inside its \<^verbatim>\<open>try\<close> lands in the one
  \<^verbatim>\<open>catch\<close>.
\<close>

definition bearer_token :: "string option \<Rightarrow> string option" where
  "bearer_token authorization = map_option (replace_first ''Bearer '' []) authorization"

definition auth :: "lib \<Rightarrow> world \<Rightarrow> store \<Rightarrow> string option \<Rightarrow> response + admin" where
  "auth L w s authorization =
     (case bearer_token authorization of
        None \<Rightarrow> Inl please_authenticate
      | Some token \<Rightarrow>
          if token = [] then Inl please_authenticate
          else (case jwt_verify L (now w) token of
                  None \<Rightarrow> Inl please_authenticate
                | Some decoded_id \<Rightarrow>
                    (case findById_admin L s decoded_id of
                       Inl e \<Rightarrow> Inl please_authenticate
                     | Inr None \<Rightarrow> Inl please_authenticate
                     | Inr (Some a) \<Rightarrow> Inr a)))"

section \<open>Contact form\<close>

text \<open>
  \<^verbatim>\<open>new Contact({...})\<close> followed by \<^verbatim>\<open>save()\<close>: the fields are cast to strings,
  \<open>date\<close> and \<open>status\<close> take their defaults, and validation rejects a document with a
  field that could not be cast, or whose required \<open>name\<close> or \<open>email\<close> is missing or
  empty.
\<close>

definition new_Contact ::
  "lib \<Rightarrow> world \<Rightarrow> jsval option \<Rightarrow> jsval option \<Rightarrow> jsval option \<Rightarrow> jsval option \<Rightarrow> jsval option
     \<Rightarrow> error + contact" where
  "new_Contact L w name email phone service message =
     (case (castString L name, castString L email, castString L phone,
            castString L service, castString L message) of
        (Inr (Some n), Inr (Some e), Inr p, Inr sv, Inr m) \<Rightarrow>
          if n = [] \<or> e = [] then Inl ValidationError
          else Inr \<lparr>contact_id = new_id w, contact_name = n, contact_email = e,
                    contact_phone = p, contact_service = sv, contact_message = m,
                    contact_date = now w, contact_status = Some ''new''\<rparr>
      | _ \<Rightarrow> Inl ValidationError)"

text \<open>
  The body of the notification, with the line breaks and the indentation of the
  template literal; \<open>None\<close> when the conversion of a field to a string throws.
\<close>

definition notification_html ::
  "lib \<Rightarrow> jsval option \<Rightarrow> jsval option \<Rightarrow> jsval option \<Rightarrow> jsval option \<Rightarrow> jsval option
     \<Rightarrow> string option" where
  "notification_html L name email phone service message =
     (case (interpolate L name, interpolate L email,
            if falsy L phone then Some ''Not provided'' else interpolate L phone,
            if falsy L service then Some ''Not specified'' else interpolate L service,
            interpolate L message) of
        (Some n, Some e, Some p, Some sv, Some m) \<Rightarrow>
          Some (CHR 0x0A # replicate 20 CHR '' '' @ ''<h2>New Lead from SMMA Website</h2>''
            @ CHR 0x0A # replicate 20 CHR '' '' @ ''<p><strong>Name:</strong> '' @ n @ ''</p>''
            @ CHR 0x0A # replicate 20 CHR '' '' @ ''<p><strong>Email:</strong> '' @ e @ ''</p>''
            @ CHR 0x0A # replicate 20 CHR '' '' @ ''<p><strong>Phone:</strong> '' @ p @ ''</p>''
            @ CHR 0x0A # replicate 20 CHR '' '' @ ''<p><strong>Service:</strong> '' @ sv @ ''</p>''
            @ CHR 0x0A # replicate 20 CHR '' '' @ ''<p><strong>Message:</strong> '' @ m @ ''</p>''
            @ CHR 0x0A # replicate 16 CHR '' '')
      | _ \<Rightarrow> None)"

text \<open>What the handler writes to the console.\<close>

datatype log = EmailNotificationFailed | ContactFormError error

definition server_error_try_again :: response where
  "server_error_try_again = respond 500 (Message False ''Server error. Please try again.'')"

text \<open>
  The inner \<^verbatim>\<open>try\<close>: building the message and sending it; either may throw, and the
  \<^verbatim>\<open>catch\<close> writes one line to the console.
\<close>

definition notify ::
  "lib \<Rightarrow> world \<Rightarrow> jsval option \<Rightarrow> jsval option \<Rightarrow> jsval option \<Rightarrow> jsval option \<Rightarrow> jsval option
     \<Rightarrow> log list" where
  "notify L w name email phone service message =
     (case notification_html L name email phone service message of
        None \<Rightarrow> [EmailNotificationFailed]
      | Some html \<Rightarrow> if sendMail w html then [] else [EmailNotificationFailed])"

text \<open>\<^verbatim>\<open>POST /api/contact\<close>: the response, the store afterwards, and the console lines.\<close>

definition post_contact ::
  "lib \<Rightarrow> world \<Rightarrow> store \<Rightarrow> body \<Rightarrow> response \<times> store \<times> log list" where
  "post_contact L w s b =
     (let name = field b ''name''; email = field b ''email''; phone = field b ''phone'';
          service = field b ''service''; message = field b ''message''
      in if falsy L name \<or> falsy L email \<or> falsy L message
         then (respond 400 (Message False ''Name, email and message are required''), s, [])
         else (case new_Contact L w name email phone service message of
                 Inl e \<Rightarrow> (server_error_try_again, s, [ContactFormError e])
               | Inr c \<Rightarrow>
                   (respond 201 (Message True ''Thank you! We will contact you soon.''),
                    s\<lparr>contacts := contacts s @ [c]\<rparr>,
                    notify L w name email phone service message)))"

section \<open>Admin routes over the contacts\<close>

definition server_error :: response where
  "server_error = respond 500 (Message False ''Server error'')"

text \<open>\<^verbatim>\<open>find().sort({ date: -1 })\<close>: every document, the largest date first.\<close>

definition sort_desc :: "('a \<Rightarrow> 'k::linorder) \<Rightarrow> 'a list \<Rightarrow> 'a list" where
  "sort_desc key xs = rev (sort_key key xs)"

definition get_contacts :: "lib \<Rightarrow> world \<Rightarrow> store \<Rightarrow> string option \<Rightarrow> response \<times> store" where
  "get_contacts L w s authorization =
     (case auth L w s authorization of
        Inl r \<Rightarrow> (r, s)
      | Inr a \<Rightarrow> (respond 200 (Data True (Contacts (sort_desc contact_date (contacts s)))), s))"

fun update_first :: "('a \<Rightarrow> bool) \<Rightarrow> ('a \<Rightarrow> 'a) \<Rightarrow> 'a list \<Rightarrow> 'a list" where
  "update_first P f [] = []"
| "update_first P f (x # xs) = (if P x then f x # xs else x # update_first P f xs)"

fun delete_first :: "('a \<Rightarrow> bool) \<Rightarrow> 'a list \<Rightarrow> 'a list" where
  "delete_first P [] = []"
| "delete_first P (x # xs) = (if P x then xs else x # delete_first P xs)"

text \<open>
  The update \<^verbatim>\<open>{ status }\<close> is cast to the schema: a scalar is set as its string, null
  as null, an array throws, an object is the library's matter, and an undefined status
  is dropped or written as null with the version.
\<close>

fun castUpdate :: "lib \<Rightarrow> jsval option \<Rightarrow> error + change" where
  "castUpdate L None = Inr (if omitUndefined L then Keep else Set None)"
| "castUpdate L (Some (JArr xs)) = Inl CastError"
| "castUpdate L (Some (JObj kvs)) =
     (case castUpdate_object L kvs of None \<Rightarrow> Inl CastError | Some c \<Rightarrow> Inr c)"
| "castUpdate L (Some v) =
     (case castString L (Some v) of Inl e \<Rightarrow> Inl e | Inr x \<Rightarrow> Inr (Set x))"

fun apply_change :: "change \<Rightarrow> contact \<Rightarrow> contact" where
  "apply_change Keep c = c"
| "apply_change (Set x) c = c\<lparr>contact_status := x\<rparr>"

text \<open>
  \<^verbatim>\<open>findByIdAndUpdate(id, { status }, { new: true })\<close>: the id and the update are cast
  first, and either cast may throw; a missing document gives null; a found one is
  returned as updated.
\<close>

definition findByIdAndUpdate ::
  "lib \<Rightarrow> store \<Rightarrow> string \<Rightarrow> jsval option \<Rightarrow> error + (contact option \<times> store)" where
  "findByIdAndUpdate L s pid st =
     (case ObjectId L pid of
        Inl e \<Rightarrow> Inl e
      | Inr i \<Rightarrow>
          (case castUpdate L st of
             Inl e \<Rightarrow> Inl e
           | Inr ch \<Rightarrow>
               (case find (\<lambda>c. contact_id c = i) (contacts s) of
                  None \<Rightarrow> Inr (None, s)
                | Some c \<Rightarrow>
                    Inr (Some (apply_change ch c),
                         s\<lparr>contacts :=
                             update_first (\<lambda>c. contact_id c = i) (apply_change ch) (contacts s)\<rparr>))))"

definition put_contact ::
  "lib \<Rightarrow> world \<Rightarrow> store \<Rightarrow> string option \<Rightarrow> string \<Rightarrow> body \<Rightarrow> response \<times> store" where
  "put_contact L w s authorization pid b =
     (case auth L w s authorization of
        Inl r \<Rightarrow> (r, s)
      | Inr a \<Rightarrow>
          (case findByIdAndUpdate L s pid (field b ''status'') of
             Inl e \<Rightarrow> (server_error, s)
           | Inr (c, s') \<Rightarrow> (respond 200 (Data True (ContactOrNull c)), s')))"

definition findByIdAndDelete :: "lib \<Rightarrow> store \<Rightarrow> string \<Rightarrow> error + store" where
  "findByIdAndDelete L s pid =
     (case ObjectId L pid of
        Inl e \<Rightarrow> Inl e
      | Inr i \<Rightarrow> Inr (s\<lparr>contacts := delete_first (\<lambda>c. contact_id c = i) (contacts s)\<rparr>))"

definition delete_contact ::
  "lib \<Rightarrow> world \<Rightarrow> store \<Rightarrow> string option \<Rightarrow> string \<Rightarrow> response \<times> store" where
  "delete_contact L w s authorization pid =
     (case auth L w s authorization of
        Inl r \<Rightarrow> (r, s)
      | Inr a \<Rightarrow>
          (case findByIdAndDelete L s pid of
             Inl e \<Rightarrow> (server_error, s)
           | Inr s' \<Rightarrow> (respond 200 (Message True ''Contact deleted''), s')))"

section \<open>Portfolio\<close>

definition get_clients :: "store \<Rightarrow> response \<times> store" where
  "get_clients s = (respond 200 (Data True (Clients (sort_desc client_date (clients s)))), s)"

text \<open>
  \<^verbatim>\<open>new Client(req.body)\<close>. The schema is strict: only its own paths and \<^verbatim>\<open>_id\<close> are
  read from the body, each through the cast of its type. The document gets a generated
  \<^verbatim>\<open>_id\<close> when the body has none, and \<open>date\<close> takes its default when the body has no
  such key. \<^verbatim>\<open>save()\<close> fails when a cast has failed or when the \<^verbatim>\<open>_id\<close> is that of a
  stored document.
\<close>

definition client__id :: "lib \<Rightarrow> world \<Rightarrow> store \<Rightarrow> jsval option \<Rightarrow> error + oid option" where
  "client__id L w s given =
     (case given of
        None \<Rightarrow> Inr (Some (new_id w))
      | Some v \<Rightarrow>
          (case castObjectId L (Some v) of
             Inl e \<Rightarrow> Inl e
           | Inr None \<Rightarrow> Inr None
           | Inr (Some i) \<Rightarrow>
               if Some i \<in> client_id ` set (clients s) then Inl DuplicateKey else Inr (Some i)))"

definition date_or_default :: "lib \<Rightarrow> world \<Rightarrow> jsval option \<Rightarrow> error + int option" where
  "date_or_default L w given =
     (case given of
        None \<Rightarrow> Inr (Some (now w))
      | Some v \<Rightarrow> castDate L (Some v))"

definition new_Client :: "lib \<Rightarrow> world \<Rightarrow> store \<Rightarrow> body \<Rightarrow> error + client" where
  "new_Client L w s b =
     (case (client__id L w s (field b ''_id''),
            castNumber L (field b ''clientRating''),
            date_or_default L w (field b ''date'')) of
        (Inr i, Inr rating, Inr d) \<Rightarrow>
          (case (castString L (field b ''name''), castString L (field b ''logo''),
                 castString L (field b ''projectName''), castString L (field b ''category''),
                 castString L (field b ''results''), castString L (field b ''testimonial'')) of
             (Inr n, Inr l, Inr p, Inr c, Inr r, Inr t) \<Rightarrow>
               Inr \<lparr>client_id = i, client_name = n, client_logo = l, client_projectName = p,
                    client_category = c, client_results = r, client_testimonial = t,
                    client_clientRating = rating, client_date = d\<rparr>
           | _ \<Rightarrow> Inl ValidationError)
      | _ \<Rightarrow> Inl ValidationError)"

text \<open>The driver gives a document whose \<^verbatim>\<open>_id\<close> is null a generated one as it inserts it.\<close>

definition insertOne :: "world \<Rightarrow> client \<Rightarrow> client" where
  "insertOne w c = (if client_id c = None then c\<lparr>client_id := Some (new_id w)\<rparr> else c)"

definition post_clients ::
  "lib \<Rightarrow> world \<Rightarrow> store \<Rightarrow> string option \<Rightarrow> body \<Rightarrow> response \<times> store" where
  "post_clients L w s authorization b =
     (case auth L w s authorization of
        Inl r \<Rightarrow> (r, s)
      | Inr a \<Rightarrow>
          (case new_Client L w s b of
             Inl e \<Rightarrow> (server_error, s)
           | Inr c \<Rightarrow>
               (respond 201 (Data True (ClientDoc c)),
                s\<lparr>clients := clients s @ [insertOne w c]\<rparr>)))"



text \<open>A submitted value that is a string, and one that is a number.\<close>

fun submitted_string :: "jsval option \<Rightarrow> string option" where
  "submitted_string (Some (JStr s)) = Some s"
| "submitted_string _ = None"






section \<open>Admin accounts\<close>

text \<open>
  \<^verbatim>\<open>new Admin({ username, password: hashedPassword })\<close> followed by \<^verbatim>\<open>save()\<close>: both
  paths are required, and the index on \<open>username\<close> is unique.
\<close>

definition new_Admin :: "lib \<Rightarrow> world \<Rightarrow> store \<Rightarrow> jsval option \<Rightarrow> string \<Rightarrow> error + admin" where
  "new_Admin L w s uname hashedPassword =
     (case castString L uname of
        Inr (Some u) \<Rightarrow>
          if u = [] \<or> hashedPassword = [] then Inl ValidationError
          else if u \<in> username ` set (admins s) then Inl DuplicateKey
          else Inr \<lparr>admin_id = new_id w, username = u, password = hashedPassword\<rparr>
      | _ \<Rightarrow> Inl ValidationError)"

definition register :: "lib \<Rightarrow> world \<Rightarrow> store \<Rightarrow> body \<Rightarrow> response \<times> store" where
  "register L w s b =
     (let uname = field b ''username''; pword = field b ''password''
      in case findOne_admin L s uname of
           Inl e \<Rightarrow> (server_error, s)
         | Inr (Some existingAdmin) \<Rightarrow>
             (respond 400 (Message False ''Admin already exists''), s)
         | Inr None \<Rightarrow>
             (case bcrypt_hash L w pword of
                Inl e \<Rightarrow> (server_error, s)
              | Inr hashedPassword \<Rightarrow>
                  (case new_Admin L w s uname hashedPassword of
                     Inl e \<Rightarrow> (server_error, s)
                   | Inr a \<Rightarrow>
                       (respond 201 (Message True ''Admin created successfully''),
                        s\<lparr>admins := admins s @ [a]\<rparr>))))"

definition invalid_credentials :: response where
  "invalid_credentials = respond 401 (Message False ''Invalid credentials'')"

definition login :: "lib \<Rightarrow> world \<Rightarrow> store \<Rightarrow> body \<Rightarrow> response \<times> store" where
  "login L w s b =
     (let uname = field b ''username''; pword = field b ''password''
      in case findOne_admin L s uname of
           Inl e \<Rightarrow> (server_error, s)
         | Inr None \<Rightarrow> (invalid_credentials, s)
         | Inr (Some a) \<Rightarrow>
             (case bcrypt_compare L pword (password a) of
                Inl e \<Rightarrow> (server_error, s)
              | Inr isMatch \<Rightarrow>
                  if \<not> isMatch then (invalid_credentials, s)
                  else (respond 200 (Token True (jwt_sign L (now w) (admin_id a)) ''Login successful''),
                        s)))"

section \<open>The routes\<close>

datatype request =
    PostContact body
  | GetContacts "string option"
  | PutContact "string option" string body
  | DeleteContact "string option" string
  | GetClients
  | PostClients "string option" body
  | Register body
  | Login body

fun handle :: "lib \<Rightarrow> world \<Rightarrow> store \<Rightarrow> request \<Rightarrow> response \<times> store" where
  "handle L w s (PostContact b) = (case post_contact L w s b of (r, s', l) \<Rightarrow> (r, s'))"
| "handle L w s (GetContacts h) = get_contacts L w s h"
| "handle L w s (PutContact h pid b) = put_contact L w s h pid b"
| "handle L w s (DeleteContact h pid) = delete_contact L w s h pid"
| "handle L w s GetClients = get_clients s"
| "handle L w s (PostClients h b) = post_clients L w s h b"
| "handle L w s (Register b) = register L w s b"
| "handle L w s (Login b) = login L w s b"

text \<open>The stores the server can be in: it starts empty and changes through its routes only.\<close>

inductive reachable :: "lib \<Rightarrow> store \<Rightarrow> bool" for L :: lib where
  start: "reachable L empty_store"
| request: "reachable L s \<Longrightarrow> reachable L (snd (handle L w s r))"

text \<open>A store with every stored password rewritten.\<close>

definition map_password :: "(string \<Rightarrow> string) \<Rightarrow> store \<Rightarrow> store" where
  "map_password f s = s\<lparr>admins := map (\<lambda>a. a\<lparr>password := f (password a)\<rparr>) (admins s)\<rparr>"

section \<open>A concrete setting\<close>

text \<open>
  Stand-ins for the libraries, small enough to compute with: a digest that writes the
  salt and the plaintext after a prefix, a token that is the hexadecimal ObjectId
  itself, one string read as a date, a driver of the later kind, and arrays and objects
  refused wherever the choice is the library's.
\<close>

definition demo_lib :: lib where
  "demo_lib =
     \<lparr>bcrypt_digest = (\<lambda>sl p. ''$2a$10$'' @ sl @ ''$'' @ p),
      bcrypt_check =
        (\<lambda>p h. take 7 h = ''$2a$10$''
           \<and> dropWhile (\<lambda>c. c \<noteq> CHR ''$'') (drop 7 h) = CHR ''$'' # p),
      jwt_sign = (\<lambda>t i. ''000000000000000000000001''),
      jwt_verify = (\<lambda>t tok. if length tok = 24 then Some (Some (JStr tok)) else None),
      Number_isZero = (\<lambda>n. False),
      Number_toString = (\<lambda>n. ''1''),
      js_Number = (\<lambda>v. None),
      js_Date = (\<lambda>v. if v = JStr ''1970-01-01'' then Some 0 else None),
      ObjectId_12_bytes = False,
      ObjectId_object = (\<lambda>v. None),
      filter_username = (\<lambda>v. None),
      filter__id = (\<lambda>v. None),
      castUpdate_object = (\<lambda>kvs. None),
      omitUndefined = True\<rparr>"

text \<open>The same libraries over a driver of the earlier kind.\<close>

definition earlier :: lib where
  "earlier = demo_lib\<lparr>ObjectId_12_bytes := True\<rparr>"

definition demo_world :: world where
  "demo_world = \<lparr>now = 1700000000000, salt = ''salt'', new_id = 1, sendMail = (\<lambda>m. True)\<rparr>"

definition offline :: world where
  "offline = demo_world\<lparr>sendMail := (\<lambda>m. False)\<rparr>"

definition root :: admin where
  "root = \<lparr>admin_id = 1, username = ''a'', password = ''$2a$10$salt$p1''\<rparr>"

definition demo_store :: store where
  "demo_store = \<lparr>contacts = [], clients = [], admins = [root]\<rparr>"

definition resalt :: "string \<Rightarrow> string" where
  "resalt h = ''$2a$10$pepper$p1''"

definition root_token :: "string option" where
  "root_token = Some ''Bearer 000000000000000000000001''"


definition older :: contact where
  "older =
     \<lparr>contact_id = 10, contact_name = ''X'', contact_email = ''x@x.com'', contact_phone = None,
      contact_service = None, contact_message = Some ''hi'', contact_date = 1600000000000,
      contact_status = Some ''new''\<rparr>"

definition newer :: contact where
  "newer =
     \<lparr>contact_id = 11, contact_name = ''Y'', contact_email = ''y@y.com'', contact_phone = None,
      contact_service = None, contact_message = Some ''ho'', contact_date = 1650000000000,
      contact_status = Some ''contacted''\<rparr>"

definition inbox :: store where
  "inbox = \<lparr>contacts = [older, newer], clients = [], admins = [root]\<rparr>"

section \<open>Facts about the helpers\<close>

lemma find_None_iff_image: "find (\<lambda>x. f x = k) xs = None \<longleftrightarrow> k \<notin> f ` set xs"
  by (auto simp: find_None_iff)

lemma delete_first_absent: "\<forall>x\<in>set xs. \<not> P x \<Longrightarrow> delete_first P xs = xs"
  by (induction xs) auto

lemma ObjectId_one: "ObjectId demo_lib ''000000000000000000000001'' = Inr 1"
  by (simp add: ObjectId_def hex24_def hex_val_def)

lemma ObjectId_two: "ObjectId demo_lib ''000000000000000000000002'' = Inr 2"
  by (simp add: ObjectId_def hex24_def hex_val_def)

lemma demo_verify:
  "jwt_verify demo_lib t tok = (if length tok = 24 then Some (Some (JStr tok)) else None)"
  by (simp add: demo_lib_def)



lemma demo_deleted_admin:
  "bearer_token (Some ''Bearer 000000000000000000000002'') = Some ''000000000000000000000002''
   \<and> jwt_verify demo_lib (now demo_world) ''000000000000000000000002''
       = Some (Some (JStr ''000000000000000000000002''))
   \<and> findById_admin demo_lib demo_store (Some (JStr ''000000000000000000000002'')) = Inr None"
  by (simp add: bearer_token_def demo_verify findById_admin_def ObjectId_two demo_store_def
      root_def)

lemma castString_submitted:
  "v = None \<or> submitted_string v \<noteq> None \<Longrightarrow> castString L v = Inr (submitted_string v)"
  by (cases "(L, v)" rule: castString.cases) auto


section \<open>The auth guard\<close>

text \<open>
  C1. The guard fails for three causes: the Authorization header carries no token (it
  is absent, or nothing is left of it once \<^verbatim>\<open>Bearer \<close> is removed), the token does
  not verify, or it verifies and its id finds no stored account. In each case the guard
  answers 401 with the body \<^verbatim>\<open>{ success: false, message: "Please authenticate" }\<close>, and
  so does each of the four routes behind it, which leave the store as it was.
\<close>

theorem auth_failures_indistinguishable:
  assumes "bearer_token h = None \<or> bearer_token h = Some []
     \<or> (\<exists>t. bearer_token h = Some t \<and> jwt_verify L (now w) t = None)
     \<or> (\<exists>t d. bearer_token h = Some t \<and> jwt_verify L (now w) t = Some d
           \<and> (\<forall>a. findById_admin L s d \<noteq> Inr (Some a)))"
  shows "auth L w s h = Inl \<lparr>status = 401, json = Message False ''Please authenticate''\<rparr>
     \<and> handle L w s (GetContacts h)
         = (\<lparr>status = 401, json = Message False ''Please authenticate''\<rparr>, s)
     \<and> handle L w s (PutContact h pid b)
         = (\<lparr>status = 401, json = Message False ''Please authenticate''\<rparr>, s)
     \<and> handle L w s (DeleteContact h pid)
         = (\<lparr>status = 401, json = Message False ''Please authenticate''\<rparr>, s)
     \<and> handle L w s (PostClients h b)
         = (\<lparr>status = 401, json = Message False ''Please authenticate''\<rparr>, s)"
proof -
  have "auth L w s h = Inl please_authenticate"
    using assms
    by (auto simp: auth_def split: option.splits sum.splits)
  then show ?thesis
    by (simp add: please_authenticate_def respond_def get_contacts_def put_contact_def
        delete_contact_def post_clients_def)
qed

theorem auth_failures_indistinguishable_witness:
  "auth demo_lib demo_world demo_store None
     = Inl \<lparr>status = 401, json = Message False ''Please authenticate''\<rparr>
   \<and> auth demo_lib demo_world demo_store (Some ''Bearer forged'')
     = Inl \<lparr>status = 401, json = Message False ''Please authenticate''\<rparr>
   \<and> auth demo_lib demo_world demo_store (Some ''Bearer 000000000000000000000002'')
     = Inl \<lparr>status = 401, json = Message False ''Please authenticate''\<rparr>"
proof -
  have 1: "bearer_token None = None"
    by (simp add: bearer_token_def)
  have 2: "\<exists>t. bearer_token (Some ''Bearer forged'') = Some t
      \<and> jwt_verify demo_lib (now demo_world) t = None"
    by (simp add: bearer_token_def demo_verify)
  have 3: "\<exists>t d. bearer_token (Some ''Bearer 000000000000000000000002'') = Some t
      \<and> jwt_verify demo_lib (now demo_world) t = Some d
      \<and> (\<forall>a. findById_admin demo_lib demo_store d \<noteq> Inr (Some a))"
    using demo_deleted_admin by simp
  show ?thesis
    using auth_failures_indistinguishable [of None demo_lib demo_world demo_store] 1
      auth_failures_indistinguishable [of "Some ''Bearer forged''" demo_lib demo_world demo_store] 2
      auth_failures_indistinguishable
        [of "Some ''Bearer 000000000000000000000002''" demo_lib demo_world demo_store] 3
    by blast
qed

section \<open>The contact form\<close>

lemma uncastable_iff: "uncastable v \<longleftrightarrow> castString L v = Inl CastError"
  by (cases "(L, v)" rule: castString.cases)
    (auto split: option.splits jsval.splits)

lemma castable_cast: "\<not> uncastable v \<Longrightarrow> \<exists>x. castString L v = Inr x"
  by (cases "(L, v)" rule: castString.cases)
    (auto split: option.splits jsval.splits)

lemma truthy_cast:
  assumes "\<not> falsy L v" and "\<not> uncastable v" and "\<forall>n. Number_toString L n \<noteq> []"
  shows "\<exists>t. castString L v = Inr (Some t) \<and> t \<noteq> []"
  using assms
  by (cases "(L, v)" rule: castString.cases)
    (auto split: option.splits jsval.splits)

lemma new_Contact_Inr:
  assumes "new_Contact L w name email phone service message = Inr c"
  shows "castString L name = Inr (Some (contact_name c))"
    and "castString L email = Inr (Some (contact_email c))"
    and "castString L phone = Inr (contact_phone c)"
    and "castString L service = Inr (contact_service c)"
    and "castString L message = Inr (contact_message c)"
    and "contact_status c = Some ''new''"
    and "contact_date c = now w"
    and "contact_id c = new_id w"
proof -
  from assms obtain n e p sv m where
    "castString L name = Inr (Some n)" "castString L email = Inr (Some e)"
    "castString L phone = Inr p" "castString L service = Inr sv" "castString L message = Inr m"
    "c = \<lparr>contact_id = new_id w, contact_name = n, contact_email = e,
          contact_phone = p, contact_service = sv, contact_message = m,
          contact_date = now w, contact_status = Some ''new''\<rparr>"
    by (auto simp: new_Contact_def split: sum.splits option.splits if_splits)
  then show "castString L name = Inr (Some (contact_name c))"
    and "castString L email = Inr (Some (contact_email c))"
    and "castString L phone = Inr (contact_phone c)"
    and "castString L service = Inr (contact_service c)"
    and "castString L message = Inr (contact_message c)"
    and "contact_status c = Some ''new''"
    and "contact_date c = now w"
    and "contact_id c = new_id w"
    by simp_all
qed

lemma new_Contact_cast_fails:
  assumes "uncastable name \<or> uncastable email \<or> uncastable phone \<or> uncastable service
    \<or> uncastable message"
  shows "new_Contact L w name email phone service message = Inl ValidationError"
  using assms unfolding uncastable_iff [of _ L]
  by (auto simp: new_Contact_def split: sum.splits option.splits)

lemma new_Contact_castable:
  assumes "\<not> falsy L name" "\<not> falsy L email"
    and "\<not> uncastable name" "\<not> uncastable email" "\<not> uncastable phone"
    "\<not> uncastable service" "\<not> uncastable message"
    and "\<forall>n. Number_toString L n \<noteq> []"
  shows "\<exists>c. new_Contact L w name email phone service message = Inr c"
proof -
  obtain n where n: "castString L name = Inr (Some n)" "n \<noteq> []"
    using assms truthy_cast by blast
  obtain e where e: "castString L email = Inr (Some e)" "e \<noteq> []"
    using assms truthy_cast by blast
  obtain p where p: "castString L phone = Inr p"
    using assms(5) castable_cast [of phone L] by blast
  obtain sv where sv: "castString L service = Inr sv"
    using assms(6) castable_cast [of service L] by blast
  obtain m where m: "castString L message = Inr m"
    using assms(7) castable_cast [of message L] by blast
  from n e p sv m show ?thesis
    by (simp add: new_Contact_def)
qed

lemma new_Contact_strings:
  assumes "name = Some (JStr nm)" "nm \<noteq> []" "email = Some (JStr em)" "em \<noteq> []"
    and "message = Some (JStr msg)"
    and "phone = None \<or> submitted_string phone \<noteq> None"
    and "service = None \<or> submitted_string service \<noteq> None"
  shows "new_Contact L w name email phone service message
       = Inr \<lparr>contact_id = new_id w, contact_name = nm, contact_email = em,
              contact_phone = submitted_string phone,
              contact_service = submitted_string service, contact_message = Some msg,
              contact_date = now w, contact_status = Some ''new''\<rparr>"
proof -
  have p: "castString L phone = Inr (submitted_string phone)"
    using assms(6) by (rule castString_submitted)
  have sv: "castString L service = Inr (submitted_string service)"
    using assms(7) by (rule castString_submitted)
  show ?thesis
    by (simp add: new_Contact_def p sv assms(1-5))
qed

text \<open>
  C3, as the code has it. A submission in which \<open>name\<close>, \<open>email\<close> or \<open>message\<close> is
  absent, null, false, zero or the empty string is answered with 400; the store is
  unchanged and nothing else happens. Any other submission is saved or not with the
  string cast of its five fields. When the document is saved, the answer is 201 and
  exactly one Inquiry is added to the store: it has status \<^verbatim>\<open>"new"\<close>, the server's
  clock as its date, and the casts of the submitted fields. When it is not, the answer
  is the generic 500 and the store is unchanged. It is saved whenever none of the five
  fields is a value on which the cast throws (numbers printing as non-empty strings),
  and it is not saved when one of them is such a value: an array, or an object without
  a non-empty string \<^verbatim>\<open>_id\<close>. In particular, when \<open>name\<close>, \<open>email\<close> and \<open>message\<close> are
  non-empty strings and \<open>phone\<close> and \<open>service\<close> are strings or absent, the answer is 201
  and the Inquiry added holds exactly those strings.
\<close>

theorem contact_submission:
  "(falsy L (field b ''name'') \<or> falsy L (field b ''email'') \<or> falsy L (field b ''message'')
      \<longrightarrow> post_contact L w s b
            = (\<lparr>status = 400, json = Message False ''Name, email and message are required''\<rparr>,
               s, []))
   \<and> (\<not> falsy L (field b ''name'') \<and> \<not> falsy L (field b ''email'')
        \<and> \<not> falsy L (field b ''message'')
        \<and> new_Contact L w (field b ''name'') (field b ''email'') (field b ''phone'')
              (field b ''service'') (field b ''message'') = Inr c
      \<longrightarrow> fst (post_contact L w s b)
            = \<lparr>status = 201, json = Message True ''Thank you! We will contact you soon.''\<rparr>
          \<and> fst (snd (post_contact L w s b)) = s\<lparr>contacts := contacts s @ [c]\<rparr>
          \<and> contact_status c = Some ''new'' \<and> contact_date c = now w
          \<and> castString L (field b ''name'') = Inr (Some (contact_name c))
          \<and> castString L (field b ''email'') = Inr (Some (contact_email c))
          \<and> castString L (field b ''message'') = Inr (contact_message c)
          \<and> castString L (field b ''phone'') = Inr (contact_phone c)
          \<and> castString L (field b ''service'') = Inr (contact_service c))
   \<and> (\<not> falsy L (field b ''name'') \<and> \<not> falsy L (field b ''email'')
        \<and> \<not> falsy L (field b ''message'')
        \<and> new_Contact L w (field b ''name'') (field b ''email'') (field b ''phone'')
              (field b ''service'') (field b ''message'') = Inl e
      \<longrightarrow> post_contact L w s b
            = (\<lparr>status = 500, json = Message False ''Server error. Please try again.''\<rparr>,
               s, [ContactFormError e]))
   \<and> (\<not> falsy L (field b ''name'') \<and> \<not> falsy L (field b ''email'')
        \<and> \<not> uncastable (field b ''name'') \<and> \<not> uncastable (field b ''email'')
        \<and> \<not> uncastable (field b ''phone'') \<and> \<not> uncastable (field b ''service'')
        \<and> \<not> uncastable (field b ''message'') \<and> (\<forall>n. Number_toString L n \<noteq> [])
      \<longrightarrow> (\<exists>c'. new_Contact L w (field b ''name'') (field b ''email'') (field b ''phone'')
              (field b ''service'') (field b ''message'') = Inr c'))
   \<and> (uncastable (field b ''name'') \<or> uncastable (field b ''email'')
        \<or> uncastable (field b ''phone'') \<or> uncastable (field b ''service'')
        \<or> uncastable (field b ''message'')
      \<longrightarrow> new_Contact L w (field b ''name'') (field b ''email'') (field b ''phone'')
              (field b ''service'') (field b ''message'') = Inl ValidationError)
   \<and> (field b ''name'' = Some (JStr nm) \<and> nm \<noteq> []
        \<and> field b ''email'' = Some (JStr em) \<and> em \<noteq> []
        \<and> field b ''message'' = Some (JStr msg) \<and> msg \<noteq> []
        \<and> (field b ''phone'' = None \<or> submitted_string (field b ''phone'') \<noteq> None)
        \<and> (field b ''service'' = None \<or> submitted_string (field b ''service'') \<noteq> None)
      \<longrightarrow> fst (post_contact L w s b)
            = \<lparr>status = 201, json = Message True ''Thank you! We will contact you soon.''\<rparr>
          \<and> fst (snd (post_contact L w s b))
            = s\<lparr>contacts := contacts s
                 @ [\<lparr>contact_id = new_id w, contact_name = nm, contact_email = em,
                      contact_phone = submitted_string (field b ''phone''),
                      contact_service = submitted_string (field b ''service''),
                      contact_message = Some msg, contact_date = now w,
                      contact_status = Some ''new''\<rparr>]\<rparr>)"
proof (intro conjI impI)
  assume "falsy L (field b ''name'') \<or> falsy L (field b ''email'')
    \<or> falsy L (field b ''message'')"
  then show "post_contact L w s b
      = (\<lparr>status = 400, json = Message False ''Name, email and message are required''\<rparr>,
         s, [])"
    by (auto simp: post_contact_def respond_def Let_def)
next
  assume ok: "\<not> falsy L (field b ''name'') \<and> \<not> falsy L (field b ''email'')
    \<and> \<not> falsy L (field b ''message'')
    \<and> new_Contact L w (field b ''name'') (field b ''email'') (field b ''phone'')
          (field b ''service'') (field b ''message'') = Inr c"
  then have saved: "new_Contact L w (field b ''name'') (field b ''email'') (field b ''phone'')
      (field b ''service'') (field b ''message'') = Inr c"
    by (elim conjE)
  from ok show "fst (post_contact L w s b)
      = \<lparr>status = 201, json = Message True ''Thank you! We will contact you soon.''\<rparr>"
    by (simp add: post_contact_def respond_def Let_def)
  from ok show "fst (snd (post_contact L w s b)) = s\<lparr>contacts := contacts s @ [c]\<rparr>"
    by (simp add: post_contact_def Let_def)
  from saved show "contact_status c = Some ''new''"
    by (rule new_Contact_Inr)
  from saved show "contact_date c = now w"
    by (rule new_Contact_Inr)
  from saved show "castString L (field b ''name'') = Inr (Some (contact_name c))"
    by (rule new_Contact_Inr)
  from saved show "castString L (field b ''email'') = Inr (Some (contact_email c))"
    by (rule new_Contact_Inr)
  from saved show "castString L (field b ''message'') = Inr (contact_message c)"
    by (rule new_Contact_Inr)
  from saved show "castString L (field b ''phone'') = Inr (contact_phone c)"
    by (rule new_Contact_Inr)
  from saved show "castString L (field b ''service'') = Inr (contact_service c)"
    by (rule new_Contact_Inr)
next
  assume "\<not> falsy L (field b ''name'') \<and> \<not> falsy L (field b ''email'')
    \<and> \<not> falsy L (field b ''message'')
    \<and> new_Contact L w (field b ''name'') (field b ''email'') (field b ''phone'')
          (field b ''service'') (field b ''message'') = Inl e"
  then show "post_contact L w s b
      = (\<lparr>status = 500, json = Message False ''Server error. Please try again.''\<rparr>,
         s, [ContactFormError e])"
    by (simp add: post_contact_def server_error_try_again_def respond_def Let_def)
next
  assume "\<not> falsy L (field b ''name'') \<and> \<not> falsy L (field b ''email'')
    \<and> \<not> uncastable (field b ''name'') \<and> \<not> uncastable (field b ''email'')
    \<and> \<not> uncastable (field b ''phone'') \<and> \<not> uncastable (field b ''service'')
    \<and> \<not> uncastable (field b ''message'') \<and> (\<forall>n. Number_toString L n \<noteq> [])"
  then show "\<exists>c'. new_Contact L w (field b ''name'') (field b ''email'') (field b ''phone'')
      (field b ''service'') (field b ''message'') = Inr c'"
    using new_Contact_castable by blast
next
  assume "uncastable (field b ''name'') \<or> uncastable (field b ''email'')
    \<or> uncastable (field b ''phone'') \<or> uncastable (field b ''service'')
    \<or> uncastable (field b ''message'')"
  then show "new_Contact L w (field b ''name'') (field b ''email'') (field b ''phone'')
      (field b ''service'') (field b ''message'') = Inl ValidationError"
    by (rule new_Contact_cast_fails)
next
  assume strings: "field b ''name'' = Some (JStr nm) \<and> nm \<noteq> []
    \<and> field b ''email'' = Some (JStr em) \<and> em \<noteq> []
    \<and> field b ''message'' = Some (JStr msg) \<and> msg \<noteq> []
    \<and> (field b ''phone'' = None \<or> submitted_string (field b ''phone'') \<noteq> None)
    \<and> (field b ''service'' = None \<or> submitted_string (field b ''service'') \<noteq> None)"
  then have saved: "new_Contact L w (field b ''name'') (field b ''email'') (field b ''phone'')
      (field b ''service'') (field b ''message'')
      = Inr \<lparr>contact_id = new_id w, contact_name = nm, contact_email = em,
             contact_phone = submitted_string (field b ''phone''),
             contact_service = submitted_string (field b ''service''),
             contact_message = Some msg, contact_date = now w,
             contact_status = Some ''new''\<rparr>"
    using new_Contact_strings [of "field b ''name''" nm "field b ''email''" em
        "field b ''message''" msg "field b ''phone''" "field b ''service''" L w]
    by blast
  from strings have truthy: "\<not> falsy L (field b ''name'')" "\<not> falsy L (field b ''email'')"
    "\<not> falsy L (field b ''message'')"
    by simp_all
  from truthy saved show "fst (post_contact L w s b)
      = \<lparr>status = 201, json = Message True ''Thank you! We will contact you soon.''\<rparr>"
    by (simp add: post_contact_def respond_def Let_def)
  from truthy saved show "fst (snd (post_contact L w s b))
      = s\<lparr>contacts := contacts s
           @ [\<lparr>contact_id = new_id w, contact_name = nm, contact_email = em,
                contact_phone = submitted_string (field b ''phone''),
                contact_service = submitted_string (field b ''service''),
                contact_message = Some msg, contact_date = now w,
                contact_status = Some ''new''\<rparr>]\<rparr>"
    by (simp add: post_contact_def Let_def)
qed

theorem contact_submission_witness:
  "post_contact demo_lib demo_world empty_store
       [(''name'', JStr ''X''), (''email'', JStr []), (''phone'', JStr ''1'')]
     = (\<lparr>status = 400, json = Message False ''Name, email and message are required''\<rparr>,
        empty_store, [])
   \<and> fst (post_contact demo_lib demo_world empty_store
          [(''name'', JStr ''X''), (''email'', JStr ''x@x.com''), (''message'', JStr ''hi''),
           (''phone'', JStr ''1'')])
     = \<lparr>status = 201, json = Message True ''Thank you! We will contact you soon.''\<rparr>
   \<and> fst (snd (post_contact demo_lib demo_world empty_store
          [(''name'', JStr ''X''), (''email'', JStr ''x@x.com''), (''message'', JStr ''hi''),
           (''phone'', JStr ''1'')]))
     = empty_store\<lparr>contacts := contacts empty_store
         @ [\<lparr>contact_id = 1, contact_name = ''X'', contact_email = ''x@x.com'',
              contact_phone = Some ''1'', contact_service = None, contact_message = Some ''hi'',
              contact_date = 1700000000000, contact_status = Some ''new''\<rparr>]\<rparr>
   \<and> (\<exists>c. fst (post_contact demo_lib demo_world empty_store
            [(''name'', JBool True), (''email'', JStr ''x@x.com''), (''message'', JStr ''hi'')])
          = \<lparr>status = 201, json = Message True ''Thank you! We will contact you soon.''\<rparr>
        \<and> fst (snd (post_contact demo_lib demo_world empty_store
            [(''name'', JBool True), (''email'', JStr ''x@x.com''), (''message'', JStr ''hi'')]))
          = empty_store\<lparr>contacts := contacts empty_store @ [c]\<rparr>
        \<and> contact_status c = Some ''new'' \<and> contact_date c = now demo_world
        \<and> contact_name c = ''true'')
   \<and> post_contact demo_lib demo_world empty_store
       [(''name'', JStr ''X''), (''email'', JStr ''x@x.com''), (''message'', JStr ''hi''),
        (''phone'', JArr [JStr ''1''])]
     = (\<lparr>status = 500, json = Message False ''Server error. Please try again.''\<rparr>,
        empty_store, [ContactFormError ValidationError])"
proof -
  let ?b0 = "[(''name'', JStr ''X''), (''email'', JStr ''x@x.com''), (''message'', JStr ''hi''),
        (''phone'', JStr ''1'')]"
  let ?b1 = "[(''name'', JBool True), (''email'', JStr ''x@x.com''), (''message'', JStr ''hi'')]"
  let ?b2 = "[(''name'', JStr ''X''), (''email'', JStr []), (''phone'', JStr ''1'')]"
  let ?b3 = "[(''name'', JStr ''X''), (''email'', JStr ''x@x.com''), (''message'', JStr ''hi''),
        (''phone'', JArr [JStr ''1''])]"
  have t0: "field ?b0 ''name'' = Some (JStr ''X'') \<and> ''X'' \<noteq> []
      \<and> field ?b0 ''email'' = Some (JStr ''x@x.com'') \<and> ''x@x.com'' \<noteq> []
      \<and> field ?b0 ''message'' = Some (JStr ''hi'') \<and> ''hi'' \<noteq> []
      \<and> (field ?b0 ''phone'' = None \<or> submitted_string (field ?b0 ''phone'') \<noteq> None)
      \<and> (field ?b0 ''service'' = None \<or> submitted_string (field ?b0 ''service'') \<noteq> None)"
    by (simp add: field_def)
  have e0: "\<lparr>contact_id = new_id demo_world, contact_name = ''X'', contact_email = ''x@x.com'',
        contact_phone = submitted_string (field ?b0 ''phone''),
        contact_service = submitted_string (field ?b0 ''service''),
        contact_message = Some ''hi'', contact_date = now demo_world,
        contact_status = Some ''new''\<rparr>
      = \<lparr>contact_id = 1, contact_name = ''X'', contact_email = ''x@x.com'',
         contact_phone = Some ''1'', contact_service = None, contact_message = Some ''hi'',
         contact_date = 1700000000000, contact_status = Some ''new''\<rparr>"
    by (simp add: field_def demo_world_def)
  note i0 = contact_submission [where L = demo_lib and w = demo_world and s = empty_store
      and b = ?b0 and nm = "''X''" and em = "''x@x.com''" and msg = "''hi''"]
  note l0 = i0 [THEN conjunct2, THEN conjunct2, THEN conjunct2, THEN conjunct2, THEN conjunct2,
      THEN mp, OF t0]
  have r0: "fst (post_contact demo_lib demo_world empty_store ?b0)
        = \<lparr>status = 201, json = Message True ''Thank you! We will contact you soon.''\<rparr>"
    using l0 by (rule conjunct1)
  have r0': "fst (snd (post_contact demo_lib demo_world empty_store ?b0))
      = empty_store\<lparr>contacts := contacts empty_store
          @ [\<lparr>contact_id = 1, contact_name = ''X'', contact_email = ''x@x.com'',
               contact_phone = Some ''1'', contact_service = None, contact_message = Some ''hi'',
               contact_date = 1700000000000, contact_status = Some ''new''\<rparr>]\<rparr>"
    using l0 [THEN conjunct2] unfolding e0 by this
  have t1: "\<not> falsy demo_lib (field ?b1 ''name'')" "\<not> falsy demo_lib (field ?b1 ''email'')"
    "\<not> falsy demo_lib (field ?b1 ''message'')"
    "\<not> uncastable (field ?b1 ''name'')" "\<not> uncastable (field ?b1 ''email'')"
    "\<not> uncastable (field ?b1 ''phone'')" "\<not> uncastable (field ?b1 ''service'')"
    "\<not> uncastable (field ?b1 ''message'')"
    by (simp_all add: field_def)
  have n: "\<forall>n. Number_toString demo_lib n \<noteq> []"
    by (simp add: demo_lib_def)
  have h2: "falsy demo_lib (field ?b2 ''email'')"
    by (simp add: field_def)
  have t3: "\<not> falsy demo_lib (field ?b3 ''name'')" "\<not> falsy demo_lib (field ?b3 ''email'')"
    "\<not> falsy demo_lib (field ?b3 ''message'')" "uncastable (field ?b3 ''phone'')"
    by (simp_all add: field_def)
  note i1 = contact_submission [where L = demo_lib and w = demo_world and s = empty_store
      and b = ?b1]
  from t1 n i1 obtain c where c: "new_Contact demo_lib demo_world (field ?b1 ''name'')
      (field ?b1 ''email'') (field ?b1 ''phone'') (field ?b1 ''service'')
      (field ?b1 ''message'') = Inr c"
    by blast
  have "castString demo_lib (field ?b1 ''name'') = Inr (Some (contact_name c))"
    using t1(1-3) c i1 [where c = c] by blast
  then have nm: "contact_name c = ''true''"
    by (simp add: field_def)
  have r1: "fst (post_contact demo_lib demo_world empty_store ?b1)
        = \<lparr>status = 201, json = Message True ''Thank you! We will contact you soon.''\<rparr>
      \<and> fst (snd (post_contact demo_lib demo_world empty_store ?b1))
        = empty_store\<lparr>contacts := contacts empty_store @ [c]\<rparr>
      \<and> contact_status c = Some ''new'' \<and> contact_date c = now demo_world"
    using t1(1-3) c i1 [where c = c] by blast
  have r2: "post_contact demo_lib demo_world empty_store ?b2
      = (\<lparr>status = 400, json = Message False ''Name, email and message are required''\<rparr>,
         empty_store, [])"
    using h2
      contact_submission [where L = demo_lib and w = demo_world and s = empty_store and b = ?b2]
    by blast
  note i3 = contact_submission [where L = demo_lib and w = demo_world and s = empty_store
      and b = ?b3 and e = ValidationError]
  from t3(4) i3 have f3: "new_Contact demo_lib demo_world (field ?b3 ''name'')
      (field ?b3 ''email'') (field ?b3 ''phone'') (field ?b3 ''service'')
      (field ?b3 ''message'') = Inl ValidationError"
    by blast
  have r3: "post_contact demo_lib demo_world empty_store ?b3
      = (\<lparr>status = 500, json = Message False ''Server error. Please try again.''\<rparr>,
         empty_store, [ContactFormError ValidationError])"
    using t3(1-3) f3 i3 by blast
  from r1 nm have r1': "\<exists>c. fst (post_contact demo_lib demo_world empty_store ?b1)
        = \<lparr>status = 201, json = Message True ''Thank you! We will contact you soon.''\<rparr>
      \<and> fst (snd (post_contact demo_lib demo_world empty_store ?b1))
        = empty_store\<lparr>contacts := contacts empty_store @ [c]\<rparr>
      \<and> contact_status c = Some ''new'' \<and> contact_date c = now demo_world
      \<and> contact_name c = ''true''"
    by (intro exI [of _ c] conjI) (elim conjE, assumption)+
  from r2 r0 r0' r1' r3 show ?thesis
    by (intro conjI)
qed

text \<open>
  C3 as stated, that a submission with \<open>name\<close>, \<open>email\<close> and \<open>message\<close> present and
  non-empty is persisted and answered with 201, fails when a field is an array: with
  three proper strings and the phone \<^verbatim>\<open>["1"]\<close> the save is rejected and the answer is
  500. And a \<open>name\<close> that is present as \<^verbatim>\<open>false\<close> is answered with 400.
\<close>

theorem array_field_counterexample:
  "\<not> falsy demo_lib (Some (JStr ''X'')) \<and> \<not> falsy demo_lib (Some (JStr ''x@x.com''))
   \<and> \<not> falsy demo_lib (Some (JStr ''hi''))
   \<and> post_contact demo_lib demo_world empty_store
       [(''name'', JStr ''X''), (''email'', JStr ''x@x.com''), (''message'', JStr ''hi''),
        (''phone'', JArr [JStr ''1''])]
     = (\<lparr>status = 500, json = Message False ''Server error. Please try again.''\<rparr>,
        empty_store, [ContactFormError ValidationError])
   \<and> post_contact demo_lib demo_world empty_store
       [(''name'', JBool False), (''email'', JStr ''x@x.com''), (''message'', JStr ''hi'')]
     = (\<lparr>status = 400, json = Message False ''Name, email and message are required''\<rparr>,
        empty_store, [])"
proof -
  have "new_Contact demo_lib demo_world (Some (JStr ''X'')) (Some (JStr ''x@x.com''))
      (Some (JArr [JStr ''1''])) None (Some (JStr ''hi'')) = Inl ValidationError"
    by (simp add: new_Contact_def)
  then have "post_contact demo_lib demo_world empty_store
       [(''name'', JStr ''X''), (''email'', JStr ''x@x.com''), (''message'', JStr ''hi''),
        (''phone'', JArr [JStr ''1''])]
     = (\<lparr>status = 500, json = Message False ''Server error. Please try again.''\<rparr>,
        empty_store, [ContactFormError ValidationError])"
    by (simp add: post_contact_def field_def server_error_try_again_def respond_def)
  moreover have "post_contact demo_lib demo_world empty_store
       [(''name'', JBool False), (''email'', JStr ''x@x.com''), (''message'', JStr ''hi'')]
     = (\<lparr>status = 400, json = Message False ''Name, email and message are required''\<rparr>,
        empty_store, [])"
    by (simp add: post_contact_def field_def respond_def)
  ultimately show ?thesis
    by simp
qed

text \<open>
  C5. The response and the store after a submission do not depend on the mail transport:
  they are the same whether it delivers or throws. A valid submission, one that passes
  the test of its three required fields and is saved, is answered with the 201 success
  body in either case; when building the message or sending it throws, one line is
  written to the console and nothing else happens. A submission is such a valid one
  whenever it passes the test and none of its five fields is a value on which the
  string cast throws (numbers printing as non-empty strings).
\<close>

theorem notification_failure_swallowed:
  "fst (post_contact L (w\<lparr>sendMail := f\<rparr>) s b) = fst (post_contact L (w\<lparr>sendMail := g\<rparr>) s b)
   \<and> fst (snd (post_contact L (w\<lparr>sendMail := f\<rparr>) s b))
       = fst (snd (post_contact L (w\<lparr>sendMail := g\<rparr>) s b))
   \<and> (\<not> falsy L (field b ''name'') \<and> \<not> falsy L (field b ''email'')
        \<and> \<not> falsy L (field b ''message'')
        \<and> new_Contact L w (field b ''name'') (field b ''email'') (field b ''phone'')
              (field b ''service'') (field b ''message'') = Inr c
        \<longrightarrow> fst (post_contact L w s b)
              = \<lparr>status = 201, json = Message True ''Thank you! We will contact you soon.''\<rparr>
          \<and> snd (snd (post_contact L w s b))
              = (case notification_html L (field b ''name'') (field b ''email'')
                      (field b ''phone'') (field b ''service'') (field b ''message'') of
                   None \<Rightarrow> [EmailNotificationFailed]
                 | Some html \<Rightarrow> if sendMail w html then [] else [EmailNotificationFailed]))
   \<and> (\<not> falsy L (field b ''name'') \<and> \<not> falsy L (field b ''email'')
        \<and> \<not> falsy L (field b ''message'')
        \<and> \<not> uncastable (field b ''name'') \<and> \<not> uncastable (field b ''email'')
        \<and> \<not> uncastable (field b ''phone'') \<and> \<not> uncastable (field b ''service'')
        \<and> \<not> uncastable (field b ''message'') \<and> (\<forall>n. Number_toString L n \<noteq> [])
        \<longrightarrow> fst (post_contact L w s b)
              = \<lparr>status = 201, json = Message True ''Thank you! We will contact you soon.''\<rparr>
          \<and> snd (snd (post_contact L w s b))
              = (case notification_html L (field b ''name'') (field b ''email'')
                      (field b ''phone'') (field b ''service'') (field b ''message'') of
                   None \<Rightarrow> [EmailNotificationFailed]
                 | Some html \<Rightarrow> if sendMail w html then [] else [EmailNotificationFailed]))"
proof (intro conjI impI)
  have same: "new_Contact L (w\<lparr>sendMail := h\<rparr>) n e p sv m = new_Contact L w n e p sv m"
    for h n e p sv m
  proof -
    have e: "new_id (w\<lparr>sendMail := h\<rparr>) = new_id w" "now (w\<lparr>sendMail := h\<rparr>) = now w"
      by simp_all
    show ?thesis
      unfolding new_Contact_def e by (rule refl)
  qed
  show "fst (post_contact L (w\<lparr>sendMail := f\<rparr>) s b) = fst (post_contact L (w\<lparr>sendMail := g\<rparr>) s b)"
    by (simp add: post_contact_def same Let_def split: sum.splits)
  show "fst (snd (post_contact L (w\<lparr>sendMail := f\<rparr>) s b))
       = fst (snd (post_contact L (w\<lparr>sendMail := g\<rparr>) s b))"
    by (simp add: post_contact_def same Let_def split: sum.splits)
next
  assume ok: "\<not> falsy L (field b ''name'') \<and> \<not> falsy L (field b ''email'')
    \<and> \<not> falsy L (field b ''message'')
    \<and> new_Contact L w (field b ''name'') (field b ''email'') (field b ''phone'')
          (field b ''service'') (field b ''message'') = Inr c"
  then show "fst (post_contact L w s b)
      = \<lparr>status = 201, json = Message True ''Thank you! We will contact you soon.''\<rparr>"
    by (simp add: post_contact_def respond_def Let_def)
  from ok show "snd (snd (post_contact L w s b))
      = (case notification_html L (field b ''name'') (field b ''email'')
              (field b ''phone'') (field b ''service'') (field b ''message'') of
           None \<Rightarrow> [EmailNotificationFailed]
         | Some html \<Rightarrow> if sendMail w html then [] else [EmailNotificationFailed])"
    by (simp add: post_contact_def notify_def Let_def)
next
  assume castable: "\<not> falsy L (field b ''name'') \<and> \<not> falsy L (field b ''email'')
    \<and> \<not> falsy L (field b ''message'')
    \<and> \<not> uncastable (field b ''name'') \<and> \<not> uncastable (field b ''email'')
    \<and> \<not> uncastable (field b ''phone'') \<and> \<not> uncastable (field b ''service'')
    \<and> \<not> uncastable (field b ''message'') \<and> (\<forall>n. Number_toString L n \<noteq> [])"
  then obtain c' where saved: "new_Contact L w (field b ''name'') (field b ''email'')
      (field b ''phone'') (field b ''service'') (field b ''message'') = Inr c'"
    using new_Contact_castable [of L "field b ''name''" "field b ''email''" "field b ''phone''"
        "field b ''service''" "field b ''message''" w]
    by blast
  from castable have truthy: "\<not> falsy L (field b ''name'')" "\<not> falsy L (field b ''email'')"
    "\<not> falsy L (field b ''message'')"
    by simp_all
  from truthy saved show "fst (post_contact L w s b)
      = \<lparr>status = 201, json = Message True ''Thank you! We will contact you soon.''\<rparr>"
    by (simp add: post_contact_def respond_def Let_def)
  from truthy saved show "snd (snd (post_contact L w s b))
      = (case notification_html L (field b ''name'') (field b ''email'')
              (field b ''phone'') (field b ''service'') (field b ''message'') of
           None \<Rightarrow> [EmailNotificationFailed]
         | Some html \<Rightarrow> if sendMail w html then [] else [EmailNotificationFailed])"
    by (simp add: post_contact_def notify_def Let_def)
qed

theorem notification_failure_swallowed_witness:
  "fst (post_contact demo_lib offline empty_store
          [(''name'', JStr ''X''), (''email'', JStr ''x@x.com''), (''message'', JStr ''hi'')])
     = \<lparr>status = 201, json = Message True ''Thank you! We will contact you soon.''\<rparr>
   \<and> snd (snd (post_contact demo_lib offline empty_store
          [(''name'', JStr ''X''), (''email'', JStr ''x@x.com''), (''message'', JStr ''hi'')]))
     = [EmailNotificationFailed]
   \<and> fst (snd (post_contact demo_lib (offline\<lparr>sendMail := (\<lambda>m. True)\<rparr>) empty_store
          [(''name'', JStr ''X''), (''email'', JStr ''x@x.com''), (''message'', JStr ''hi'')]))
     = fst (snd (post_contact demo_lib (offline\<lparr>sendMail := (\<lambda>m. False)\<rparr>) empty_store
          [(''name'', JStr ''X''), (''email'', JStr ''x@x.com''), (''message'', JStr ''hi'')]))"
proof -
  let ?b1 = "[(''name'', JStr ''X''), (''email'', JStr ''x@x.com''), (''message'', JStr ''hi'')]"
  have h1: "\<not> falsy demo_lib (field ?b1 ''name'') \<and> \<not> falsy demo_lib (field ?b1 ''email'')
      \<and> \<not> falsy demo_lib (field ?b1 ''message'')"
    by (simp add: field_def)
  obtain c where c: "new_Contact demo_lib offline (field ?b1 ''name'') (field ?b1 ''email'')
      (field ?b1 ''phone'') (field ?b1 ''service'') (field ?b1 ''message'') = Inr c"
    by (simp add: new_Contact_def field_def)
  have m: "\<not> sendMail offline x" for x
    by (simp add: offline_def)
  have u1: "\<not> uncastable (field ?b1 ''name'') \<and> \<not> uncastable (field ?b1 ''email'')
      \<and> \<not> uncastable (field ?b1 ''phone'') \<and> \<not> uncastable (field ?b1 ''service'')
      \<and> \<not> uncastable (field ?b1 ''message'') \<and> (\<forall>n. Number_toString demo_lib n \<noteq> [])"
    by (simp add: field_def demo_lib_def)
  note t = notification_failure_swallowed
      [where L = demo_lib and w = offline and f = "\<lambda>m. True" and g = "\<lambda>m. False"
         and s = empty_store and b = ?b1 and c = c]
  from h1 u1 t have "fst (post_contact demo_lib offline empty_store ?b1)
      = \<lparr>status = 201, json = Message True ''Thank you! We will contact you soon.''\<rparr>"
    by blast
  from h1 c t have "fst (post_contact demo_lib offline empty_store ?b1)
      = \<lparr>status = 201, json = Message True ''Thank you! We will contact you soon.''\<rparr>"
    by blast
  moreover from h1 c t have "snd (snd (post_contact demo_lib offline empty_store ?b1))
      = (case notification_html demo_lib (field ?b1 ''name'') (field ?b1 ''email'')
              (field ?b1 ''phone'') (field ?b1 ''service'') (field ?b1 ''message'') of
           None \<Rightarrow> [EmailNotificationFailed]
         | Some html \<Rightarrow> if sendMail offline html then [] else [EmailNotificationFailed])"
    by blast
  then have "snd (snd (post_contact demo_lib offline empty_store ?b1)) = [EmailNotificationFailed]"
    using m by (simp split: option.splits)
  moreover from t have "fst (snd (post_contact demo_lib (offline\<lparr>sendMail := (\<lambda>m. True)\<rparr>)
        empty_store ?b1))
      = fst (snd (post_contact demo_lib (offline\<lparr>sendMail := (\<lambda>m. False)\<rparr>) empty_store ?b1))"
    by blast
  ultimately show ?thesis
    by blast
qed

section \<open>Login\<close>

lemma username_query_scalar:
  "scalar_or_absent v \<Longrightarrow>
   username_query L v
     = Inr (case castString L v of Inr (Some n) \<Rightarrow> (\<lambda>u. u = n) | _ \<Rightarrow> (\<lambda>u. False))"
  by (cases "(L, v)" rule: username_query.cases) auto

lemma findOne_admin_scalar:
  assumes "scalar_or_absent v"
  shows "findOne_admin L s v
     = Inr (case castString L v of
              Inr (Some n) \<Rightarrow> find (\<lambda>a. username a = n) (admins s)
            | _ \<Rightarrow> None)"
  using assms
  by (cases "castString L v")
    (auto simp: findOne_admin_def username_query_scalar find_None_iff split: option.splits)

lemma findOne_admin_member: "findOne_admin L s v = Inr (Some a) \<Longrightarrow> a \<in> set (admins s)"
  by (auto simp: findOne_admin_def find_Some_iff split: sum.splits)

lemma bcrypt_hash_not_string:
  "\<forall>p. v \<noteq> Some (JStr p) \<Longrightarrow> bcrypt_hash L w v = Inl IllegalArguments"
  by (cases "(L, w, v)" rule: bcrypt_hash.cases) auto

lemma bcrypt_compare_not_string:
  "\<forall>p. v \<noteq> Some (JStr p) \<Longrightarrow> bcrypt_compare L v h = Inl IllegalArguments"
  by (cases "(L, v, h)" rule: bcrypt_compare.cases) auto

lemma bcrypt_hash_Inr:
  "bcrypt_hash L w v = Inr hp \<Longrightarrow> \<exists>p. v = Some (JStr p) \<and> hp = bcrypt_digest L (salt w) p"
  by (cases "(L, w, v)" rule: bcrypt_hash.cases) auto

lemma demo_find_a:
  "findOne_admin demo_lib demo_store (Some (JStr ''a'')) = Inr (Some root)"
  "findOne_admin demo_lib demo_store (Some (JStr ''b'')) = Inr None"
  by (simp_all add: findOne_admin_def demo_store_def root_def)

lemma demo_check:
  "bcrypt_check demo_lib p ''$2a$10$salt$p1'' = (p = ''p1'')"
  by (auto simp: demo_lib_def)

text \<open>
  C4, on the code. When no account matches the username, and when an account matches
  and the password does not compare equal to the stored hash, the login route answers
  401 with the same body \<^verbatim>\<open>{ success: false, message: "Invalid credentials" }\<close>; when
  the password compares equal, it answers 200 with the token signed for that account's
  id. But when the password is absent or not a string, \<^verbatim>\<open>bcrypt.compare\<close> throws: the
  route then answers the generic 500 for a username that matches an account and 401
  for one that matches none, so the two answers differ with the existence of the
  username. A query that throws is answered with 500 as well. The store is unchanged
  in every case.
\<close>

theorem login_outcomes:
  "(findOne_admin L s (field b ''username'') = Inr None
      \<longrightarrow> login L w s b = (\<lparr>status = 401, json = Message False ''Invalid credentials''\<rparr>, s))
   \<and> (findOne_admin L s (field b ''username'') = Inr (Some a)
        \<and> bcrypt_compare L (field b ''password'') (password a) = Inr False
      \<longrightarrow> login L w s b = (\<lparr>status = 401, json = Message False ''Invalid credentials''\<rparr>, s))
   \<and> (findOne_admin L s (field b ''username'') = Inr (Some a)
        \<and> bcrypt_compare L (field b ''password'') (password a) = Inr True
      \<longrightarrow> login L w s b
            = (\<lparr>status = 200,
                 json = Token True (jwt_sign L (now w) (admin_id a)) ''Login successful''\<rparr>, s))
   \<and> (findOne_admin L s (field b ''username'') = Inr (Some a)
        \<and> (\<forall>p. field b ''password'' \<noteq> Some (JStr p))
      \<longrightarrow> login L w s b = (\<lparr>status = 500, json = Message False ''Server error''\<rparr>, s))
   \<and> (findOne_admin L s (field b ''username'') = Inl e
      \<longrightarrow> login L w s b = (\<lparr>status = 500, json = Message False ''Server error''\<rparr>, s))"
proof (intro conjI impI)
  assume "findOne_admin L s (field b ''username'') = Inr (Some a)
    \<and> (\<forall>p. field b ''password'' \<noteq> Some (JStr p))"
  then show "login L w s b = (\<lparr>status = 500, json = Message False ''Server error''\<rparr>, s)"
    using bcrypt_compare_not_string [of "field b ''password''" L "password a"]
    by (simp add: login_def server_error_def respond_def Let_def)
qed (simp_all add: login_def invalid_credentials_def server_error_def respond_def Let_def)

theorem login_outcomes_witness:
  "login demo_lib demo_world demo_store [(''username'', JStr ''b''), (''password'', JStr ''p1'')]
     = (\<lparr>status = 401, json = Message False ''Invalid credentials''\<rparr>, demo_store)
   \<and> login demo_lib demo_world demo_store [(''username'', JStr ''a''), (''password'', JStr ''p2'')]
     = (\<lparr>status = 401, json = Message False ''Invalid credentials''\<rparr>, demo_store)
   \<and> login demo_lib demo_world demo_store [(''username'', JStr ''a''), (''password'', JStr ''p1'')]
     = (\<lparr>status = 200,
          json = Token True (jwt_sign demo_lib (now demo_world) (admin_id root)) ''Login successful''\<rparr>,
        demo_store)
   \<and> login demo_lib demo_world demo_store [(''username'', JStr ''a'')]
     = (\<lparr>status = 500, json = Message False ''Server error''\<rparr>, demo_store)
   \<and> login demo_lib demo_world demo_store [(''username'', JStr ''b'')]
     = (\<lparr>status = 401, json = Message False ''Invalid credentials''\<rparr>, demo_store)
   \<and> login demo_lib demo_world demo_store
       [(''username'', JObj []), (''password'', JStr ''p1'')]
     = (\<lparr>status = 500, json = Message False ''Server error''\<rparr>, demo_store)"
proof -
  let ?b1 = "[(''username'', JStr ''b''), (''password'', JStr ''p1'')]"
  let ?b2 = "[(''username'', JStr ''a''), (''password'', JStr ''p2'')]"
  let ?b3 = "[(''username'', JStr ''a''), (''password'', JStr ''p1'')]"
  let ?b4 = "[(''username'', JStr ''a'')]"
  let ?b5 = "[(''username'', JStr ''b'')]"
  let ?b6 = "[(''username'', JObj []), (''password'', JStr ''p1'')]"
  have 1: "findOne_admin demo_lib demo_store (field ?b1 ''username'') = Inr None"
    by (simp add: field_def demo_find_a)
  have 2: "findOne_admin demo_lib demo_store (field ?b2 ''username'') = Inr (Some root)
      \<and> bcrypt_compare demo_lib (field ?b2 ''password'') (password root) = Inr False"
    by (simp add: field_def demo_find_a root_def demo_check)
  have 3: "findOne_admin demo_lib demo_store (field ?b3 ''username'') = Inr (Some root)
      \<and> bcrypt_compare demo_lib (field ?b3 ''password'') (password root) = Inr True"
    by (simp add: field_def demo_find_a root_def demo_check)
  have 4: "findOne_admin demo_lib demo_store (field ?b4 ''username'') = Inr (Some root)
      \<and> (\<forall>p. field ?b4 ''password'' \<noteq> Some (JStr p))"
    by (simp add: field_def demo_find_a)
  have 5: "findOne_admin demo_lib demo_store (field ?b5 ''username'') = Inr None"
    by (simp add: field_def demo_find_a)
  have 6: "findOne_admin demo_lib demo_store (field ?b6 ''username'') = Inl CastError"
    by (simp add: field_def findOne_admin_def) (simp add: demo_lib_def)
  have r1: "login demo_lib demo_world demo_store ?b1
      = (\<lparr>status = 401, json = Message False ''Invalid credentials''\<rparr>, demo_store)"
    using 1 login_outcomes [where s = demo_store and L = demo_lib and w = demo_world and b = ?b1]
    by blast
  have r2: "login demo_lib demo_world demo_store ?b2
      = (\<lparr>status = 401, json = Message False ''Invalid credentials''\<rparr>, demo_store)"
    using 2 login_outcomes [where s = demo_store and L = demo_lib and w = demo_world
        and a = root and b = ?b2]
    by blast
  have r3: "login demo_lib demo_world demo_store ?b3
      = (\<lparr>status = 200,
           json = Token True (jwt_sign demo_lib (now demo_world) (admin_id root)) ''Login successful''\<rparr>,
         demo_store)"
    using 3 login_outcomes [where s = demo_store and L = demo_lib and w = demo_world
        and a = root and b = ?b3]
    by blast
  have r4: "login demo_lib demo_world demo_store ?b4
      = (\<lparr>status = 500, json = Message False ''Server error''\<rparr>, demo_store)"
    using 4 login_outcomes [where s = demo_store and L = demo_lib and w = demo_world
        and a = root and b = ?b4]
    by blast
  have r5: "login demo_lib demo_world demo_store ?b5
      = (\<lparr>status = 401, json = Message False ''Invalid credentials''\<rparr>, demo_store)"
    using 5 login_outcomes [where s = demo_store and L = demo_lib and w = demo_world and b = ?b5]
    by blast
  have r6: "login demo_lib demo_world demo_store ?b6
      = (\<lparr>status = 500, json = Message False ''Server error''\<rparr>, demo_store)"
    using 6 login_outcomes [where s = demo_store and L = demo_lib and w = demo_world
        and b = ?b6 and e = CastError]
    by blast
  from r1 r2 r3 r4 r5 r6 show ?thesis
    by (intro conjI)
qed

section \<open>Registration\<close>

lemma register_admins:
  "admins (snd (register L w s b)) = admins s
   \<or> (\<exists>a. admins (snd (register L w s b)) = admins s @ [a]
          \<and> username a \<notin> username ` set (admins s)
          \<and> (\<exists>sl p. password a = bcrypt_digest L sl p))"
proof (cases "bcrypt_hash L w (field b ''password'')")
  case (Inl e)
  then show ?thesis
    by (simp add: register_def Let_def split: sum.splits option.splits)
next
  case (Inr hp)
  then obtain p where "hp = bcrypt_digest L (salt w) p"
    using bcrypt_hash_Inr by blast
  with Inr show ?thesis
    by (auto simp: register_def new_Admin_def Let_def
        split: sum.splits option.splits if_splits)
qed

lemma handle_admins:
  "admins (snd (handle L w s r)) = admins s
   \<or> (\<exists>a. admins (snd (handle L w s r)) = admins s @ [a]
          \<and> username a \<notin> username ` set (admins s)
          \<and> (\<exists>sl p. password a = bcrypt_digest L sl p))"
proof (cases r)
  case (Register b)
  then show ?thesis using register_admins [of L w s b] by simp
qed (auto simp: post_contact_def get_contacts_def put_contact_def delete_contact_def
    get_clients_def post_clients_def login_def findByIdAndUpdate_def findByIdAndDelete_def
    Let_def split: sum.splits option.splits prod.splits if_splits)

lemma reachable_usernames_distinct: "reachable L s \<Longrightarrow> distinct (map username (admins s))"
proof (induction rule: reachable.induct)
  case start
  show ?case by (simp add: empty_store_def)
next
  case (request s w r)
  with handle_admins [of L w s r] show ?case by auto
qed

lemma reachable_passwords_hashed:
  "reachable L s \<Longrightarrow> a \<in> set (admins s) \<Longrightarrow> \<exists>sl p. password a = bcrypt_digest L sl p"
proof (induction arbitrary: a rule: reachable.induct)
  case start
  then show ?case by (simp add: empty_store_def)
next
  case (request s w r)
  consider "admins (snd (handle L w s r)) = admins s"
    | a' where "admins (snd (handle L w s r)) = admins s @ [a']"
      and "\<exists>sl p. password a' = bcrypt_digest L sl p"
    using handle_admins [of L w s r] by blast
  then show ?case
  proof cases
    case 1
    with request show ?thesis by simp
  next
    case 2
    with request.prems have "a \<in> set (admins s) \<or> a = a'" by auto
    with 2 request.IH show ?thesis by blast
  qed
qed

text \<open>
  C2, as the code has it. The usernames of the stored accounts are pairwise different in
  every store the server can reach. A registration whose username (a scalar, taken
  through the string cast) is that of a stored account is answered with 400 and leaves
  the store unchanged. A registration whose username is a non-empty string that no
  stored account has, and whose password is a string (bcrypt digests being non-empty),
  is answered with 201 and adds exactly one account, with that username and the digest
  of the password; registering the same username again is then answered with 400 and
  adds nothing.
\<close>

theorem register_unique_username:
  "(reachable L s \<longrightarrow> distinct (map username (admins s)))
   \<and> (scalar_or_absent (field b ''username'')
        \<and> castString L (field b ''username'') = Inr (Some u) \<and> u \<in> username ` set (admins s)
        \<longrightarrow> register L w s b
              = (\<lparr>status = 400, json = Message False ''Admin already exists''\<rparr>, s))
   \<and> (field b ''username'' = Some (JStr u) \<and> u \<noteq> [] \<and> u \<notin> username ` set (admins s)
        \<and> field b ''password'' = Some (JStr p) \<and> bcrypt_digest L (salt w) p \<noteq> []
        \<longrightarrow> register L w s b
              = (\<lparr>status = 201, json = Message True ''Admin created successfully''\<rparr>,
                 s\<lparr>admins := admins s
                      @ [\<lparr>admin_id = new_id w, username = u,
                           password = bcrypt_digest L (salt w) p\<rparr>]\<rparr>)
            \<and> (scalar_or_absent (field b' ''username'')
                 \<and> castString L (field b' ''username'') = Inr (Some u)
                 \<longrightarrow> register L w' (snd (register L w s b)) b'
                       = (\<lparr>status = 400, json = Message False ''Admin already exists''\<rparr>,
                          snd (register L w s b))))"
proof -
  have dup: "register L w s b = (\<lparr>status = 400, json = Message False ''Admin already exists''\<rparr>, s)"
    if "scalar_or_absent (field b ''username'')"
      "castString L (field b ''username'') = Inr (Some u)" "u \<in> username ` set (admins s)"
    for w s b u
  proof -
    from that(3) have "find (\<lambda>a. username a = u) (admins s) \<noteq> None"
      by (simp add: find_None_iff_image)
    then obtain a where "find (\<lambda>a. username a = u) (admins s) = Some a"
      by blast
    with that have "findOne_admin L s (field b ''username'') = Inr (Some a)"
      by (simp add: findOne_admin_scalar)
    then show ?thesis by (simp add: register_def respond_def Let_def)
  qed
  have fresh: "register L w s b
      = (\<lparr>status = 201, json = Message True ''Admin created successfully''\<rparr>,
         s\<lparr>admins := admins s
              @ [\<lparr>admin_id = new_id w, username = u, password = bcrypt_digest L (salt w) p\<rparr>]\<rparr>)"
    if "field b ''username'' = Some (JStr u)" "u \<noteq> []" "u \<notin> username ` set (admins s)"
      "field b ''password'' = Some (JStr p)" "bcrypt_digest L (salt w) p \<noteq> []"
  proof -
    have "findOne_admin L s (field b ''username'') = Inr None"
      using that by (simp add: findOne_admin_scalar find_None_iff_image)
    then show ?thesis
      using that by (simp add: register_def new_Admin_def respond_def Let_def)
  qed
  have again: "register L w' (snd (register L w s b)) b'
      = (\<lparr>status = 400, json = Message False ''Admin already exists''\<rparr>,
         snd (register L w s b))"
    if "field b ''username'' = Some (JStr u)" "u \<noteq> []" "u \<notin> username ` set (admins s)"
      "field b ''password'' = Some (JStr p)" "bcrypt_digest L (salt w) p \<noteq> []"
      "scalar_or_absent (field b' ''username'')"
      "castString L (field b' ''username'') = Inr (Some u)"
  proof -
    have "u \<in> username ` set (admins (snd (register L w s b)))"
      using fresh [OF that(1-5)] by simp
    with that(6,7) show ?thesis
      by (rule dup)
  qed
  show ?thesis
    using dup fresh again reachable_usernames_distinct by blast
qed

theorem register_unique_username_witness:
  "reachable demo_lib (snd (handle demo_lib demo_world empty_store
        (Register [(''username'', JStr ''a''), (''password'', JStr ''p1'')])))
   \<and> distinct (map username (admins (snd (handle demo_lib demo_world empty_store
        (Register [(''username'', JStr ''a''), (''password'', JStr ''p1'')])))))
   \<and> register demo_lib demo_world empty_store [(''username'', JStr ''a''), (''password'', JStr ''p1'')]
       = (\<lparr>status = 201, json = Message True ''Admin created successfully''\<rparr>,
          empty_store\<lparr>admins := admins empty_store
             @ [\<lparr>admin_id = new_id demo_world, username = ''a'',
                  password = bcrypt_digest demo_lib (salt demo_world) ''p1''\<rparr>]\<rparr>)
   \<and> register demo_lib demo_world
         (snd (register demo_lib demo_world empty_store
                 [(''username'', JStr ''a''), (''password'', JStr ''p1'')]))
         [(''username'', JStr ''a''), (''password'', JStr ''p2'')]
       = (\<lparr>status = 400, json = Message False ''Admin already exists''\<rparr>,
          snd (register demo_lib demo_world empty_store
                 [(''username'', JStr ''a''), (''password'', JStr ''p1'')]))
   \<and> register demo_lib demo_world demo_store [(''username'', JStr ''a''), (''password'', JStr ''p2'')]
       = (\<lparr>status = 400, json = Message False ''Admin already exists''\<rparr>, demo_store)"
proof -
  let ?b1 = "[(''username'', JStr ''a''), (''password'', JStr ''p1'')]"
  let ?b2 = "[(''username'', JStr ''a''), (''password'', JStr ''p2'')]"
  have r: "reachable demo_lib (snd (handle demo_lib demo_world empty_store (Register ?b1)))"
    by (rule reachable.request) (rule reachable.start)
  have dup: "scalar_or_absent (field ?b2 ''username'')
      \<and> castString demo_lib (field ?b2 ''username'') = Inr (Some ''a'')
      \<and> ''a'' \<in> username ` set (admins demo_store)"
    by (simp add: field_def demo_store_def root_def)
  have d: "bcrypt_digest demo_lib (salt demo_world) ''p1'' \<noteq> []"
    by (simp add: demo_lib_def)
  have fresh: "field ?b1 ''username'' = Some (JStr ''a'') \<and> ''a'' \<noteq> []
      \<and> ''a'' \<notin> username ` set (admins empty_store)
      \<and> field ?b1 ''password'' = Some (JStr ''p1'')"
    by (simp add: field_def empty_store_def)
  have r1: "distinct (map username (admins (snd (handle demo_lib demo_world empty_store
      (Register ?b1)))))"
    using r register_unique_username
        [where L = demo_lib
           and s = "snd (handle demo_lib demo_world empty_store (Register ?b1))"]
    by blast
  have r2: "register demo_lib demo_world demo_store ?b2
      = (\<lparr>status = 400, json = Message False ''Admin already exists''\<rparr>, demo_store)"
    using dup register_unique_username
        [where L = demo_lib and s = demo_store and b = ?b2 and u = "''a''" and w = demo_world]
    by blast
  note t = register_unique_username
        [where L = demo_lib and s = empty_store and b = ?b1 and u = "''a''" and p = "''p1''"
           and w = demo_world and b' = ?b2 and w' = demo_world]
  have r3: "register demo_lib demo_world empty_store ?b1
       = (\<lparr>status = 201, json = Message True ''Admin created successfully''\<rparr>,
          empty_store\<lparr>admins := admins empty_store
             @ [\<lparr>admin_id = new_id demo_world, username = ''a'',
                  password = bcrypt_digest demo_lib (salt demo_world) ''p1''\<rparr>]\<rparr>)"
    using fresh d t by blast
  have r4: "register demo_lib demo_world (snd (register demo_lib demo_world empty_store ?b1)) ?b2
       = (\<lparr>status = 400, json = Message False ''Admin already exists''\<rparr>,
          snd (register demo_lib demo_world empty_store ?b1))"
    using fresh d dup t by blast
  from r r1 r2 r3 r4 show ?thesis
    by (intro conjI)
qed

text \<open>
  C2 as stated, that a first registration with a fresh username returns 201 and persists
  one account, fails where the request carries no password: the username \<^verbatim>\<open>a\<close> is
  fresh in the empty store, \<^verbatim>\<open>bcrypt.hash\<close> rejects the undefined password, and the
  route answers 500 and stores nothing.
\<close>

theorem register_fresh_username_counterexample:
  "findOne_admin demo_lib empty_store (field [(''username'', JStr ''a'')] ''username'') = Inr None
   \<and> register demo_lib demo_world empty_store [(''username'', JStr ''a'')]
       = (\<lparr>status = 500, json = Message False ''Server error''\<rparr>, empty_store)"
  by (simp add: register_def findOne_admin_def field_def empty_store_def server_error_def
      respond_def)

text \<open>
  C10, as the code has it. The route looks the username up before it hashes. For a
  registration whose password is absent or not a string: when no stored account has the
  username, \<^verbatim>\<open>bcrypt.hash\<close> rejects and the route answers with the generic 500; when
  a stored account has it, the route answers 400 before it reaches the hashing step;
  when the lookup itself throws, the answer is 500. No account is persisted in any of
  these cases.
\<close>

theorem register_without_password:
  assumes "\<forall>p. field b ''password'' \<noteq> Some (JStr p)"
  shows "(findOne_admin L s (field b ''username'') = Inr None
            \<longrightarrow> register L w s b = (\<lparr>status = 500, json = Message False ''Server error''\<rparr>, s))
     \<and> (findOne_admin L s (field b ''username'') = Inr (Some a)
            \<longrightarrow> register L w s b
                  = (\<lparr>status = 400, json = Message False ''Admin already exists''\<rparr>, s))
     \<and> (findOne_admin L s (field b ''username'') = Inl e
            \<longrightarrow> register L w s b = (\<lparr>status = 500, json = Message False ''Server error''\<rparr>, s))
     \<and> snd (register L w s b) = s"
  using bcrypt_hash_not_string [OF assms, of L w]
  by (auto simp: register_def server_error_def respond_def Let_def split: sum.splits option.splits)

theorem register_without_password_witness:
  "register demo_lib demo_world demo_store [(''username'', JStr ''b''), (''password'', JBool True)]
     = (\<lparr>status = 500, json = Message False ''Server error''\<rparr>, demo_store)
   \<and> register demo_lib demo_world demo_store [(''username'', JStr ''a'')]
     = (\<lparr>status = 400, json = Message False ''Admin already exists''\<rparr>, demo_store)"
proof -
  let ?b1 = "[(''username'', JStr ''b''), (''password'', JBool True)]"
  let ?b2 = "[(''username'', JStr ''a'')]"
  have 1: "\<forall>p. field ?b1 ''password'' \<noteq> Some (JStr p)"
    and 2: "\<forall>p. field ?b2 ''password'' \<noteq> Some (JStr p)"
    by (simp_all add: field_def)
  have 3: "findOne_admin demo_lib demo_store (field ?b1 ''username'') = Inr None"
    and 4: "findOne_admin demo_lib demo_store (field ?b2 ''username'') = Inr (Some root)"
    by (simp_all add: field_def demo_find_a)
  have r1: "register demo_lib demo_world demo_store ?b1
      = (\<lparr>status = 500, json = Message False ''Server error''\<rparr>, demo_store)"
    using 3 register_without_password [OF 1, where s = demo_store and L = demo_lib
        and w = demo_world]
    by blast
  have r2: "register demo_lib demo_world demo_store ?b2
      = (\<lparr>status = 400, json = Message False ''Admin already exists''\<rparr>, demo_store)"
    using 4 register_without_password [OF 2, where s = demo_store and L = demo_lib
        and w = demo_world and a = root]
    by blast
  from r1 r2 show ?thesis
    by (intro conjI)
qed

text \<open>
  C10 as stated, that every registration without a password fails with 500, does not
  hold for the username of a stored account: the answer is 400.
\<close>

theorem register_without_password_counterexample:
  "field [(''username'', JStr ''a'')] ''password'' = None
   \<and> register demo_lib demo_world demo_store [(''username'', JStr ''a'')]
       = (\<lparr>status = 400, json = Message False ''Admin already exists''\<rparr>, demo_store)"
  by (simp add: register_def field_def demo_find_a respond_def)

section \<open>Updating and deleting a contact\<close>

lemma castUpdate_scalar: "scalar_or_absent v \<Longrightarrow> \<exists>ch. castUpdate L v = Inr ch"
  by (cases "(L, v)" rule: castUpdate.cases) auto

lemma inbox_auth: "auth demo_lib demo_world inbox root_token = Inr root"
proof -
  have "findById_admin demo_lib inbox (Some (JStr ''000000000000000000000001'')) = Inr (Some root)"
    by (simp add: findById_admin_def ObjectId_one inbox_def root_def)
  then show ?thesis
    by (simp add: auth_def bearer_token_def root_token_def demo_verify)
qed

lemma earlier_auth: "auth earlier demo_world inbox root_token = Inr root"
proof -
  have "ObjectId earlier ''000000000000000000000001'' = Inr 1"
    by (simp add: ObjectId_def hex24_def hex_val_def)
  then have "findById_admin earlier inbox (Some (JStr ''000000000000000000000001''))
      = Inr (Some root)"
    by (simp add: findById_admin_def inbox_def root_def)
  moreover have "jwt_verify earlier t tok = jwt_verify demo_lib t tok" for t tok
    by (simp add: earlier_def)
  ultimately show ?thesis
    by (simp add: auth_def bearer_token_def root_token_def demo_verify)
qed

lemma ObjectId_twelve: "ObjectId demo_lib ''00000000000000000000000c'' = Inr 12"
  by (simp add: ObjectId_def hex24_def hex_val_def)

text \<open>
  C6, as the code has it. An id is a well-formed ObjectId when it is 24 hexadecimal
  digits, and, with the earlier drivers only, when it is any string of 12 characters.
  For an authenticated request whose id is well-formed and is the id of no stored
  Inquiry, the deletion answers 200 with its success message, and the status update
  answers 200 with \<^verbatim>\<open>data: null\<close> when the update can be cast, as it can when the
  submitted status is absent or a scalar; neither reports that nothing was found. When
  the update cannot be cast, as when the submitted status is an array, the status
  update answers the generic 500, whatever the id. For an id that is not well-formed,
  the cast of the id throws and both routes answer the generic 500. The store is
  unchanged in every one of these cases.
\<close>

theorem missing_id_is_success:
  assumes "auth L w s h = Inr a"
  shows "(hex24 pid \<or> length pid = 12 \<and> ObjectId_12_bytes L
          \<longrightarrow> (\<exists>j. ObjectId L pid = Inr j))
     \<and> (ObjectId L pid = Inr i \<and> i \<notin> contact_id ` set (contacts s)
          \<longrightarrow> delete_contact L w s h pid
                = (\<lparr>status = 200, json = Message True ''Contact deleted''\<rparr>, s)
              \<and> (scalar_or_absent (field b ''status'')
                   \<longrightarrow> put_contact L w s h pid b
                         = (\<lparr>status = 200, json = Data True (ContactOrNull None)\<rparr>, s))
              \<and> (castUpdate L (field b ''status'') = Inr ch
                   \<longrightarrow> put_contact L w s h pid b
                         = (\<lparr>status = 200, json = Data True (ContactOrNull None)\<rparr>, s))
              \<and> (castUpdate L (field b ''status'') = Inl e
                   \<longrightarrow> put_contact L w s h pid b
                         = (\<lparr>status = 500, json = Message False ''Server error''\<rparr>, s)))
     \<and> (field b ''status'' = Some (JArr xs)
          \<longrightarrow> put_contact L w s h pid b
                = (\<lparr>status = 500, json = Message False ''Server error''\<rparr>, s))
     \<and> (ObjectId L pid = Inl e
          \<longrightarrow> put_contact L w s h pid b
                = (\<lparr>status = 500, json = Message False ''Server error''\<rparr>, s)
              \<and> delete_contact L w s h pid
                = (\<lparr>status = 500, json = Message False ''Server error''\<rparr>, s))
     \<and> (\<not> hex24 pid \<and> (length pid \<noteq> 12 \<or> \<not> ObjectId_12_bytes L)
          \<longrightarrow> ObjectId L pid = Inl CastError)"
proof (intro conjI impI)
  show "\<exists>j. ObjectId L pid = Inr j" if "hex24 pid \<or> length pid = 12 \<and> ObjectId_12_bytes L"
    using that by (auto simp: ObjectId_def)
next
  assume miss: "ObjectId L pid = Inr i \<and> i \<notin> contact_id ` set (contacts s)"
  then have none: "find (\<lambda>c. contact_id c = i) (contacts s) = None"
    by (simp add: find_None_iff_image)
  from miss have "\<forall>c\<in>set (contacts s). \<not> contact_id c = i"
    by auto
  then have same: "delete_first (\<lambda>c. contact_id c = i) (contacts s) = contacts s"
    by (rule delete_first_absent)
  show "delete_contact L w s h pid
      = (\<lparr>status = 200, json = Message True ''Contact deleted''\<rparr>, s)"
    using assms miss same by (simp add: delete_contact_def findByIdAndDelete_def respond_def)
  have ok: "put_contact L w s h pid b
      = (\<lparr>status = 200, json = Data True (ContactOrNull None)\<rparr>, s)"
    if "castUpdate L (field b ''status'') = Inr c'" for c'
    using assms miss none that
    by (simp add: put_contact_def findByIdAndUpdate_def respond_def)
  show "put_contact L w s h pid b
      = (\<lparr>status = 200, json = Data True (ContactOrNull None)\<rparr>, s)"
    if "castUpdate L (field b ''status'') = Inr ch"
    using that by (rule ok)
  show "put_contact L w s h pid b
      = (\<lparr>status = 200, json = Data True (ContactOrNull None)\<rparr>, s)"
    if "scalar_or_absent (field b ''status'')"
    using that castUpdate_scalar [of "field b ''status''" L] ok by blast
  show "put_contact L w s h pid b
      = (\<lparr>status = 500, json = Message False ''Server error''\<rparr>, s)"
    if "castUpdate L (field b ''status'') = Inl e"
    using assms miss that
    by (simp add: put_contact_def findByIdAndUpdate_def server_error_def respond_def)
next
  assume "field b ''status'' = Some (JArr xs)"
  then have "castUpdate L (field b ''status'') = Inl CastError"
    by simp
  then show "put_contact L w s h pid b
      = (\<lparr>status = 500, json = Message False ''Server error''\<rparr>, s)"
    using assms
    by (simp add: put_contact_def findByIdAndUpdate_def server_error_def respond_def
        split: sum.splits)
next
  assume bad: "ObjectId L pid = Inl e"
  show "put_contact L w s h pid b
      = (\<lparr>status = 500, json = Message False ''Server error''\<rparr>, s)"
    using assms bad
    by (simp add: put_contact_def findByIdAndUpdate_def server_error_def respond_def)
  show "delete_contact L w s h pid
      = (\<lparr>status = 500, json = Message False ''Server error''\<rparr>, s)"
    using assms bad
    by (simp add: delete_contact_def findByIdAndDelete_def server_error_def respond_def)
next
  assume "\<not> hex24 pid \<and> (length pid \<noteq> 12 \<or> \<not> ObjectId_12_bytes L)"
  then show "ObjectId L pid = Inl CastError"
    by (auto simp: ObjectId_def)
qed

theorem missing_id_is_success_witness:
  "put_contact demo_lib demo_world inbox root_token ''00000000000000000000000c''
       [(''status'', JStr ''completed'')]
     = (\<lparr>status = 200, json = Data True (ContactOrNull None)\<rparr>, inbox)
   \<and> delete_contact demo_lib demo_world inbox root_token ''00000000000000000000000c''
     = (\<lparr>status = 200, json = Message True ''Contact deleted''\<rparr>, inbox)
   \<and> put_contact demo_lib demo_world inbox root_token ''00000000000000000000000c''
       [(''status'', JArr [JStr ''completed''])]
     = (\<lparr>status = 500, json = Message False ''Server error''\<rparr>, inbox)
   \<and> put_contact demo_lib demo_world inbox root_token ''abcdefghijkl''
       [(''status'', JStr ''completed'')]
     = (\<lparr>status = 500, json = Message False ''Server error''\<rparr>, inbox)
   \<and> delete_contact demo_lib demo_world inbox root_token ''abcdefghijkl''
     = (\<lparr>status = 500, json = Message False ''Server error''\<rparr>, inbox)
   \<and> put_contact earlier demo_world inbox root_token ''abcdefghijkl''
       [(''status'', JStr ''completed'')]
     = (\<lparr>status = 200, json = Data True (ContactOrNull None)\<rparr>, inbox)
   \<and> delete_contact earlier demo_world inbox root_token ''abcdefghijkl''
     = (\<lparr>status = 200, json = Message True ''Contact deleted''\<rparr>, inbox)"
proof -
  let ?b = "[(''status'', JStr ''completed'')]"
  let ?ba = "[(''status'', JArr [JStr ''completed''])]"
  have 1: "ObjectId demo_lib ''00000000000000000000000c'' = Inr 12
      \<and> 12 \<notin> contact_id ` set (contacts inbox)"
    by (simp add: ObjectId_twelve inbox_def older_def newer_def)
  have 2: "scalar_or_absent (field ?b ''status'')"
    by (simp add: field_def)
  have 3: "field ?ba ''status'' = Some (JArr [JStr ''completed''])"
    by (simp add: field_def)
  have 4: "\<not> hex24 ''abcdefghijkl''
      \<and> (length ''abcdefghijkl'' \<noteq> 12 \<or> \<not> ObjectId_12_bytes demo_lib)"
    by (simp add: hex24_def demo_lib_def)
  note t = missing_id_is_success [OF inbox_auth,
        where pid = "''00000000000000000000000c''" and i = 12 and b = ?b]
  have r1: "put_contact demo_lib demo_world inbox root_token ''00000000000000000000000c'' ?b
      = (\<lparr>status = 200, json = Data True (ContactOrNull None)\<rparr>, inbox)"
    using 1 2 t by blast
  have r2: "delete_contact demo_lib demo_world inbox root_token ''00000000000000000000000c''
      = (\<lparr>status = 200, json = Message True ''Contact deleted''\<rparr>, inbox)"
    using 1 t by blast
  have r3: "put_contact demo_lib demo_world inbox root_token ''00000000000000000000000c'' ?ba
      = (\<lparr>status = 500, json = Message False ''Server error''\<rparr>, inbox)"
    using 3 missing_id_is_success [OF inbox_auth,
        where pid = "''00000000000000000000000c''" and b = ?ba
          and xs = "[JStr ''completed'']"]
    by blast
  note u = missing_id_is_success [OF inbox_auth,
        where pid = "''abcdefghijkl''" and e = CastError and b = ?b]
  from 4 u have bad: "ObjectId demo_lib ''abcdefghijkl'' = Inl CastError"
    by blast
  have r4: "put_contact demo_lib demo_world inbox root_token ''abcdefghijkl'' ?b
      = (\<lparr>status = 500, json = Message False ''Server error''\<rparr>, inbox)"
    using bad u by blast
  have r5: "delete_contact demo_lib demo_world inbox root_token ''abcdefghijkl''
      = (\<lparr>status = 500, json = Message False ''Server error''\<rparr>, inbox)"
    using bad u by blast
  have 5: "ObjectId earlier ''abcdefghijkl'' = Inr 30138990049255557934854335340
      \<and> 30138990049255557934854335340 \<notin> contact_id ` set (contacts inbox)"
    by (simp add: ObjectId_def hex24_def hex_val_def earlier_def inbox_def older_def newer_def)
  note v = missing_id_is_success [OF earlier_auth,
        where pid = "''abcdefghijkl''" and i = 30138990049255557934854335340 and b = ?b]
  have r6: "put_contact earlier demo_world inbox root_token ''abcdefghijkl'' ?b
      = (\<lparr>status = 200, json = Data True (ContactOrNull None)\<rparr>, inbox)"
    using 5 2 v by blast
  have r7: "delete_contact earlier demo_world inbox root_token ''abcdefghijkl''
      = (\<lparr>status = 200, json = Message True ''Contact deleted''\<rparr>, inbox)"
    using 5 v by blast
  from r1 r2 r3 r4 r5 r6 r7 show ?thesis
    by (intro conjI)
qed

text \<open>
  C6 as stated, for every id that matches no stored Inquiry, fails at the id \<^verbatim>\<open>xyz\<close>:
  it is the id of no Inquiry and is well-formed for no driver, and both routes answer
  500 rather than success.
\<close>

theorem malformed_id_counterexample:
  "ObjectId demo_lib ''xyz'' = Inl CastError
   \<and> ObjectId (demo_lib\<lparr>ObjectId_12_bytes := True\<rparr>) ''xyz'' = Inl CastError
   \<and> delete_contact demo_lib demo_world inbox root_token ''xyz''
       = (\<lparr>status = 500, json = Message False ''Server error''\<rparr>, inbox)
   \<and> put_contact demo_lib demo_world inbox root_token ''xyz'' [(''status'', JStr ''completed'')]
       = (\<lparr>status = 500, json = Message False ''Server error''\<rparr>, inbox)"
proof -
  have bad: "ObjectId L ''xyz'' = Inl CastError" for L
    by (simp add: ObjectId_def hex24_def)
  then show ?thesis
    using inbox_auth
    by (simp add: delete_contact_def put_contact_def findByIdAndDelete_def
        findByIdAndUpdate_def server_error_def respond_def)
qed

section \<open>Listing the contacts\<close>

lemma sort_map_key: "sort (map f xs) = map f (sort_key f xs)"
  by (rule properties_for_sort) simp_all

lemma sort_desc_keys:
  assumes "mset xs = mset ys"
  shows "map f (sort_desc f xs) = map f (sort_desc f ys)"
proof -
  from assms have "mset (map f xs) = mset (map f ys)"
    by simp
  then have "sort (map f xs) = sort (map f ys)"
    by (metis sorted_list_of_multiset_mset)
  then have "map f (sort_key f xs) = map f (sort_key f ys)"
    by (simp add: sort_map_key)
  then have "rev (map f (sort_key f xs)) = rev (map f (sort_key f ys))"
    by simp
  then show ?thesis
    by (simp only: sort_desc_def rev_map)
qed

lemma sorted_sort_desc: "sorted_wrt (\<lambda>x y. f y \<le> f x) (sort_desc f xs)"
proof -
  have "sorted (map f (sort_key f xs))"
    by simp
  then have "sorted_wrt (\<lambda>x y. f x \<le> f y) (sort_key f xs)"
    by (simp add: sorted_map)
  then show ?thesis
    by (simp add: sort_desc_def sorted_wrt_rev)
qed

text \<open>
  C7. An authenticated listing returns 200 with the stored Inquiries, all of them and
  no others, each as often as it is stored, in descending order of their dates; the
  store is unchanged. The sequence of dates returned is the same for any order in
  which the same Inquiries are stored.
\<close>

theorem contacts_listed_newest_first:
  assumes "auth L w s h = Inr a"
  shows "get_contacts L w s h
       = (\<lparr>status = 200, json = Data True (Contacts (sort_desc contact_date (contacts s)))\<rparr>, s)
     \<and> mset (sort_desc contact_date (contacts s)) = mset (contacts s)
     \<and> sorted_wrt (\<lambda>c d. contact_date d \<le> contact_date c) (sort_desc contact_date (contacts s))
     \<and> (mset xs = mset (contacts s)
          \<longrightarrow> map contact_date (sort_desc contact_date xs)
                = map contact_date (sort_desc contact_date (contacts s)))"
  using assms sorted_sort_desc [of contact_date "contacts s"]
    sort_desc_keys [of xs "contacts s" contact_date]
  by (simp add: get_contacts_def respond_def sort_desc_def)

theorem contacts_listed_newest_first_witness:
  "get_contacts demo_lib demo_world inbox root_token
     = (\<lparr>status = 200, json = Data True (Contacts [newer, older])\<rparr>, inbox)
   \<and> sort_desc contact_date (contacts inbox) = [newer, older]
   \<and> map contact_date (sort_desc contact_date [newer, older]) = [1650000000000, 1600000000000]"
proof -
  have 1: "sort_desc contact_date (contacts inbox) = [newer, older]"
    by (simp add: sort_desc_def inbox_def older_def newer_def)
  have 2: "mset [newer, older] = mset (contacts inbox)"
    by (simp add: inbox_def)
  have 3: "map contact_date [newer, older] = [1650000000000, 1600000000000]"
    by (simp add: older_def newer_def)
  show ?thesis
    using 1 2 3
      contacts_listed_newest_first [OF inbox_auth, where xs = "[newer, older]"]
    by simp
qed

section \<open>Portfolio creation\<close>


























section \<open>Where the password hash goes\<close>

lemma map_password_simps [simp]:
  "contacts (map_password f s) = contacts s"
  "clients (map_password f s) = clients s"
  "admins (map_password f s) = map (\<lambda>a. a\<lparr>password := f (password a)\<rparr>) (admins s)"
  by (simp_all add: map_password_def)

lemma find_map_key:
  "(\<And>x. P (g x) = P x) \<Longrightarrow> find P (map g xs) = map_option g (find P xs)"
  by (induction xs) auto

lemma usernames_map_password:
  "username ` set (admins (map_password f s)) = username ` set (admins s)"
  by (simp add: image_image)

lemma findById_admin_map_password:
  "findById_admin L (map_password f s) v
     = map_sum (\<lambda>e. e) (map_option (\<lambda>a. a\<lparr>password := f (password a)\<rparr>))
         (findById_admin L s v)"
  by (simp add: findById_admin_def find_map_key split: sum.splits)

lemma auth_map_password:
  "auth L w (map_password f s) h
     = map_sum (\<lambda>r. r) (\<lambda>a. a\<lparr>password := f (password a)\<rparr>) (auth L w s h)"
  by (simp add: auth_def findById_admin_map_password split: option.splits sum.splits)

lemma findOne_admin_map_password:
  "findOne_admin L (map_password f s) v
     = map_sum (\<lambda>e. e) (map_option (\<lambda>a. a\<lparr>password := f (password a)\<rparr>))
         (findOne_admin L s v)"
  by (simp add: findOne_admin_def find_map_key split: sum.splits)

lemma new_Admin_map_password:
  "new_Admin L w (map_password f s) u hp = new_Admin L w s u hp"
  unfolding new_Admin_def usernames_map_password by (rule refl)

lemma new_Client_map_password: "new_Client L w (map_password f s) b = new_Client L w s b"
  unfolding new_Client_def client__id_def map_password_simps by (rule refl)

lemma gated_responses:
  "fst (get_contacts L w (map_password f s) h) = fst (get_contacts L w s h)"
  "fst (put_contact L w (map_password f s) h pid b) = fst (put_contact L w s h pid b)"
  "fst (delete_contact L w (map_password f s) h pid) = fst (delete_contact L w s h pid)"
  "fst (post_clients L w (map_password f s) h b) = fst (post_clients L w s h b)"
proof -
  show "fst (get_contacts L w (map_password f s) h) = fst (get_contacts L w s h)"
    by (cases "auth L w s h") (simp_all add: get_contacts_def auth_map_password)
  show "fst (put_contact L w (map_password f s) h pid b) = fst (put_contact L w s h pid b)"
    by (cases "auth L w s h")
      (simp_all add: put_contact_def auth_map_password findByIdAndUpdate_def
        split: sum.splits option.splits)
  show "fst (delete_contact L w (map_password f s) h pid) = fst (delete_contact L w s h pid)"
    by (cases "auth L w s h")
      (simp_all add: delete_contact_def auth_map_password findByIdAndDelete_def
        split: sum.splits)
  show "fst (post_clients L w (map_password f s) h b) = fst (post_clients L w s h b)"
    by (cases "auth L w s h")
      (simp_all add: post_clients_def auth_map_password new_Client_map_password
        split: sum.splits)
qed

lemma open_responses:
  "fst (case post_contact L w (map_password f s) b of (r, s', l) \<Rightarrow> (r, s'))
     = fst (case post_contact L w s b of (r, s', l) \<Rightarrow> (r, s'))"
  "fst (get_clients (map_password f s)) = fst (get_clients s)"
  "fst (register L w (map_password f s) b) = fst (register L w s b)"
proof -
  show "fst (case post_contact L w (map_password f s) b of (r, s', l) \<Rightarrow> (r, s'))
     = fst (case post_contact L w s b of (r, s', l) \<Rightarrow> (r, s'))"
    by (simp add: post_contact_def Let_def split: sum.splits)
  show "fst (get_clients (map_password f s)) = fst (get_clients s)"
    by (simp add: get_clients_def)
  show "fst (register L w (map_password f s) b) = fst (register L w s b)"
    by (cases "findOne_admin L s (field b ''username'')")
      (simp_all add: register_def Let_def findOne_admin_map_password new_Admin_map_password
        split: option.splits sum.splits)
qed

lemma login_response:
  assumes "\<forall>a\<in>set (admins s). \<forall>p. bcrypt_check L p (f (password a)) = bcrypt_check L p (password a)"
  shows "fst (login L w (map_password f s) b) = fst (login L w s b)"
proof (cases "findOne_admin L s (field b ''username'')")
  case (Inl e)
  then show ?thesis
    by (simp add: login_def Let_def findOne_admin_map_password)
next
  case (Inr found)
  show ?thesis
  proof (cases found)
    case None
    with Inr show ?thesis
      by (simp add: login_def Let_def findOne_admin_map_password)
  next
    case (Some a)
    with Inr have "a \<in> set (admins s)"
      using findOne_admin_member by blast
    with assms have "bcrypt_compare L v (f (password a)) = bcrypt_compare L v (password a)" for v
      by (cases "(L, v, password a)" rule: bcrypt_compare.cases) auto
    with Inr Some show ?thesis
      by (simp add: login_def Let_def findOne_admin_map_password split: sum.splits)
  qed
qed

lemma register_created:
  assumes created: "status (fst (register L w s b)) = 201"
  shows "\<exists>u p. field b ''password'' = Some (JStr p)
      \<and> admins (snd (register L w s b))
          = admins s @ [\<lparr>admin_id = new_id w, username = u,
                          password = bcrypt_digest L (salt w) p\<rparr>]"
proof (cases "bcrypt_hash L w (field b ''password'')")
  case (Inl e)
  with created show ?thesis
    by (simp add: register_def Let_def respond_def server_error_def
        split: option.splits sum.splits)
next
  case (Inr hp)
  then obtain p where p: "field b ''password'' = Some (JStr p)"
    "hp = bcrypt_digest L (salt w) p"
    using bcrypt_hash_Inr by blast
  with created Inr show ?thesis
    by (auto simp: register_def new_Admin_def Let_def respond_def server_error_def
        split: option.splits if_splits sum.splits)
qed

lemma demo_register:
  "register demo_lib demo_world empty_store [(''username'', JStr ''a''), (''password'', JStr ''p1'')]
     = (\<lparr>status = 201, json = Message True ''Admin created successfully''\<rparr>,
        empty_store\<lparr>admins := [\<lparr>admin_id = 1, username = ''a'', password = ''$2a$10$salt$p1''\<rparr>]\<rparr>)"
proof -
  have d: "bcrypt_digest demo_lib (salt demo_world) ''p1'' = ''$2a$10$salt$p1''"
    by (simp add: demo_lib_def demo_world_def)
  have n: "new_id demo_world = 1"
    by (simp add: demo_world_def)
  show ?thesis
    by (simp add: register_def findOne_admin_def new_Admin_def field_def empty_store_def
        respond_def d n)
qed

text \<open>
  C9. In every store the server can reach, the password of every stored account is a
  bcrypt digest (of some salt and plaintext): the registration route is the only one
  that writes an account, and what it writes is the digest of the submitted password
  under the salt drawn for the request, which differs from the plaintext wherever the
  digest of a string is not that string. No response carries the stored hash: rewriting
  the stored hashes in any way that keeps the outcome of every \<^verbatim>\<open>bcrypt.compare\<close>
  changes the response of no route to any request, so a response depends on the hashes
  only through the login's yes or no.
\<close>

theorem password_hash_confined:
  "(reachable L s \<longrightarrow> (\<forall>a\<in>set (admins s). \<exists>sl p. password a = bcrypt_digest L sl p))
   \<and> (status (fst (register L w s b)) = 201
        \<longrightarrow> (\<exists>u p. field b ''password'' = Some (JStr p)
              \<and> admins (snd (register L w s b))
                  = admins s @ [\<lparr>admin_id = new_id w, username = u,
                                  password = bcrypt_digest L (salt w) p\<rparr>]))
   \<and> (status (fst (register L w s b)) = 201 \<and> field b ''password'' = Some (JStr p)
        \<and> bcrypt_digest L (salt w) p \<noteq> p
        \<longrightarrow> password (last (admins (snd (register L w s b)))) \<noteq> p)
   \<and> ((\<forall>a\<in>set (admins s). \<forall>p.
          bcrypt_check L p (f (password a)) = bcrypt_check L p (password a))
        \<longrightarrow> fst (handle L w (map_password f s) r) = fst (handle L w s r))"
proof (intro conjI impI)
  assume "reachable L s"
  then show "\<forall>a\<in>set (admins s). \<exists>sl p. password a = bcrypt_digest L sl p"
    using reachable_passwords_hashed by blast
next
  assume "status (fst (register L w s b)) = 201"
  then show "\<exists>u p. field b ''password'' = Some (JStr p)
      \<and> admins (snd (register L w s b))
          = admins s @ [\<lparr>admin_id = new_id w, username = u,
                          password = bcrypt_digest L (salt w) p\<rparr>]"
    by (rule register_created)
next
  assume h: "status (fst (register L w s b)) = 201 \<and> field b ''password'' = Some (JStr p)
    \<and> bcrypt_digest L (salt w) p \<noteq> p"
  then obtain u p' where "field b ''password'' = Some (JStr p')"
    and "admins (snd (register L w s b))
          = admins s @ [\<lparr>admin_id = new_id w, username = u,
                          password = bcrypt_digest L (salt w) p'\<rparr>]"
    using register_created by blast
  with h show "password (last (admins (snd (register L w s b)))) \<noteq> p"
    by simp
next
  assume same: "\<forall>a\<in>set (admins s). \<forall>p.
      bcrypt_check L p (f (password a)) = bcrypt_check L p (password a)"
  show "fst (handle L w (map_password f s) r) = fst (handle L w s r)"
  proof (cases r)
    case (Login b)
    with same show ?thesis by (simp add: login_response)
  qed (simp_all add: gated_responses open_responses)
qed

theorem password_hash_confined_witness:
  "(\<exists>sl p. password (hd (admins (snd (handle demo_lib demo_world empty_store
        (Register [(''username'', JStr ''a''), (''password'', JStr ''p1'')])))))
      = bcrypt_digest demo_lib sl p)
   \<and> (\<exists>u p. field [(''username'', JStr ''a''), (''password'', JStr ''p1'')] ''password''
            = Some (JStr p)
         \<and> admins (snd (register demo_lib demo_world empty_store
                [(''username'', JStr ''a''), (''password'', JStr ''p1'')]))
            = admins empty_store @ [\<lparr>admin_id = new_id demo_world, username = u,
                 password = bcrypt_digest demo_lib (salt demo_world) p\<rparr>])
   \<and> password (last (admins (snd (register demo_lib demo_world empty_store
          [(''username'', JStr ''a''), (''password'', JStr ''p1'')])))) \<noteq> ''p1''
   \<and> password root \<noteq> resalt (password root)
   \<and> fst (handle demo_lib demo_world (map_password resalt demo_store)
          (Login [(''username'', JStr ''a''), (''password'', JStr ''p1'')]))
     = fst (handle demo_lib demo_world demo_store
          (Login [(''username'', JStr ''a''), (''password'', JStr ''p1'')]))"
proof -
  let ?b = "[(''username'', JStr ''a''), (''password'', JStr ''p1'')]"
  let ?s = "snd (handle demo_lib demo_world empty_store (Register ?b))"
  have r: "reachable demo_lib ?s"
    by (rule reachable.request) (rule reachable.start)
  have m: "hd (admins ?s) \<in> set (admins ?s)"
    by (simp add: demo_register)
  have c: "status (fst (register demo_lib demo_world empty_store ?b)) = 201"
    by (simp add: demo_register)
  have e: "\<forall>a\<in>set (admins demo_store). \<forall>p.
      bcrypt_check demo_lib p (resalt (password a)) = bcrypt_check demo_lib p (password a)"
    by (simp add: demo_store_def root_def resalt_def demo_lib_def)
  have n: "password root \<noteq> resalt (password root)"
    by (simp add: root_def resalt_def)
  have d: "field ?b ''password'' = Some (JStr ''p1'')
      \<and> bcrypt_digest demo_lib (salt demo_world) ''p1'' \<noteq> ''p1''"
    by (simp add: field_def demo_lib_def)
  have r1: "\<exists>sl p. password (hd (admins ?s)) = bcrypt_digest demo_lib sl p"
    using r m password_hash_confined [where L = demo_lib and s = ?s]
    by blast
  note t = password_hash_confined
        [where L = demo_lib and w = demo_world and s = empty_store and b = ?b
           and p = "''p1''"]
  have r2: "\<exists>u p. field ?b ''password'' = Some (JStr p)
         \<and> admins (snd (register demo_lib demo_world empty_store ?b))
            = admins empty_store @ [\<lparr>admin_id = new_id demo_world, username = u,
                 password = bcrypt_digest demo_lib (salt demo_world) p\<rparr>]"
    using c t by blast
  have r3: "password (last (admins (snd (register demo_lib demo_world empty_store ?b)))) \<noteq> ''p1''"
    using c d t by blast
  have r4: "fst (handle demo_lib demo_world (map_password resalt demo_store) (Login ?b))
     = fst (handle demo_lib demo_world demo_store (Login ?b))"
    using e password_hash_confined
        [where L = demo_lib and w = demo_world and s = demo_store and f = resalt
           and r = "Login ?b"]
    by blast
  from r1 r2 r3 n r4 show ?thesis
    by (intro conjI)
qed

end
